theory Spec2Isabelle
  imports Complex_Main
begin

section \<open>JavaScript values used by the search providers\<close>

text \<open>
  A JavaScript number is a binary64 value: a finite value, kept as the rational it denotes,
  one of the two infinities, or NaN (the result of a numeric conversion that fails: an
  \<open>undefined\<close> array slot, a string that is no number). The two zeros are one value: the
  file compares, adds and halves numbers, and none of these tells the zeros apart.
  A string is a list of code units below 256.
\<close>

datatype number = Num rat | PInf | NInf | NaN

text \<open>
  Rounding to binary64, to the nearest value, ties to the even significand. \<open>ilog2 a\<close> is
  the exponent \<open>e\<close> with \<open>2^e <= a < 2^(e+1)\<close> of a positive \<open>a\<close>; below \<open>2^-1022\<close> the exponent
  stays at \<open>-1022\<close> (the subnormal values). The values with the exponent \<open>e\<close> are the
  multiples of \<open>2^(e-52)\<close>; a magnitude that rounds to \<open>2^1024\<close> or more overflows to the
  infinity of its sign.
\<close>

function log2_up :: "rat \<Rightarrow> int" where
  "log2_up a = (if a < 2 then 0 else log2_up (a / 2) + 1)"
  by pat_completeness auto
termination
  by (relation "measure (\<lambda>a. nat \<lfloor>a\<rfloor>)") (auto, linarith)

function log2_down :: "rat \<Rightarrow> int" where
  "log2_down a = (if a \<le> 0 \<or> 1 \<le> a then 0 else log2_down (2 * a) - 1)"
  by pat_completeness auto
termination
proof (relation "measure (\<lambda>a. nat \<lceil>1 / a\<rceil>)")
  show "wf (measure (\<lambda>a :: rat. nat \<lceil>1 / a\<rceil>))" by simp
next
  fix a :: rat
  assume "\<not> (a \<le> 0 \<or> 1 \<le> a)"
  then have a: "\<not> a \<le> 0" "\<not> 1 \<le> a" by simp_all
  define x where "x = 1 / a"
  have x: "1 < x" using a by (simp add: x_def)
  then have c: "2 \<le> \<lceil>x\<rceil>" by linarith
  have "(2 :: rat) \<le> of_int \<lceil>x\<rceil>" using c by linarith
  then have "x / 2 \<le> of_int \<lceil>x\<rceil> - 1"
    using le_of_int_ceiling[of x] by linarith
  then have "x / 2 \<le> of_int (\<lceil>x\<rceil> - 1)" by simp
  then have "\<lceil>x / 2\<rceil> \<le> \<lceil>x\<rceil> - 1" by (rule ceiling_le)
  then have k: "\<lceil>x / 2\<rceil> < \<lceil>x\<rceil> \<and> 0 < \<lceil>x\<rceil>" using c by linarith
  have h: "1 / (2 * a) = 1 / a / 2" by simp
  have "\<lceil>1 / (2 * a)\<rceil> < \<lceil>1 / a\<rceil> \<and> 0 < \<lceil>1 / a\<rceil>"
    unfolding h using k unfolding x_def .
  then show "(2 * a, a) \<in> measure (\<lambda>a. nat \<lceil>1 / a\<rceil>)" by simp
qed

declare log2_up.simps [simp del]
declare log2_down.simps [simp del]

definition ilog2 :: "rat \<Rightarrow> int" where
  "ilog2 a = (if 1 \<le> a then log2_up a else log2_down a)"

definition round_even :: "rat \<Rightarrow> int" where
  "round_even t =
     (let f = \<lfloor>t\<rfloor>; d = t - of_int f
      in if d < 1 / 2 then f else if 1 / 2 < d then f + 1 else if even f then f else f + 1)"

definition expo :: "rat \<Rightarrow> int" where
  "expo a = max (ilog2 a) (- 1022)"

definition ulp :: "rat \<Rightarrow> rat" where
  "ulp a = 2 powi (expo a - 52)"

definition round_mag :: "rat \<Rightarrow> rat" where
  "round_mag a = of_int (round_even (a / ulp a)) * ulp a"

definition round64 :: "rat \<Rightarrow> number" where
  "round64 q =
     (if q = 0 then Num 0
      else let r = round_mag \<bar>q\<bar>
           in if 2 powi 1024 \<le> r then (if 0 < q then PInf else NInf)
              else Num (if 0 < q then r else - r))"

text \<open>A number is a value of binary64 when rounding leaves it as it is. The magnitudes
  of the finite values are the products \<open>n * 2^(e-52)\<close> of \<open>is_mag\<close> below \<open>2^1024\<close>.\<close>

fun is_double :: "number \<Rightarrow> bool" where
  "is_double (Num q) = (round64 q = Num q)"
| "is_double _ = True"


definition is_mag :: "rat \<Rightarrow> bool" where
  "is_mag r =
     (\<exists>n e. r = of_int n * 2 powi (e - 52) \<and> 0 \<le> n \<and> n \<le> 2 ^ 53 \<and> - 1022 \<le> e)"

text \<open>A decimal literal of the source denotes the value of binary64 nearest to it.\<close>

definition literal :: "rat \<Rightarrow> number" where
  "literal q = round64 q"

text \<open>\<open>a <= b\<close>, \<open>a >= b\<close> and \<open>a !== b\<close> on numbers: every comparison with NaN is false,
  so NaN is different from everything, itself included.\<close>

fun num_le :: "number \<Rightarrow> number \<Rightarrow> bool" where
  "num_le (Num a) (Num b) = (a \<le> b)"
| "num_le NaN b = False"
| "num_le a NaN = False"
| "num_le NInf b = True"
| "num_le a PInf = True"
| "num_le a b = False"

definition num_ge :: "number \<Rightarrow> number \<Rightarrow> bool" where
  "num_ge a b = num_le b a"

fun num_strict_neq :: "number \<Rightarrow> number \<Rightarrow> bool" where
  "num_strict_neq NaN b = True"
| "num_strict_neq a NaN = True"
| "num_strict_neq a b = (a \<noteq> b)"

text \<open>\<open>a + b\<close> and \<open>a * b\<close>: the exact result rounded to binary64; the sum of the two
  infinities and the product of an infinity and zero are NaN.\<close>

fun num_add :: "number \<Rightarrow> number \<Rightarrow> number" where
  "num_add (Num a) (Num b) = round64 (a + b)"
| "num_add NaN b = NaN"
| "num_add a NaN = NaN"
| "num_add PInf NInf = NaN"
| "num_add NInf PInf = NaN"
| "num_add PInf b = PInf"
| "num_add NInf b = NInf"
| "num_add a b = b"

fun num_mul :: "number \<Rightarrow> number \<Rightarrow> number" where
  "num_mul (Num a) (Num b) = round64 (a * b)"
| "num_mul NaN b = NaN"
| "num_mul a NaN = NaN"
| "num_mul (Num a) b = (if a = 0 then NaN else if (0 < a) = (b = PInf) then PInf else NInf)"
| "num_mul a (Num b) = (if b = 0 then NaN else if (0 < b) = (a = PInf) then PInf else NInf)"
| "num_mul a b = (if a = b then PInf else NInf)"

fun Math_abs :: "number \<Rightarrow> number" where
  "Math_abs (Num a) = Num \<bar>a\<bar>"
| "Math_abs NaN = NaN"
| "Math_abs a = PInf"

text \<open>\<open>arr[i]\<close> read as a number: a slot past the end is \<open>undefined\<close>, which converts to NaN.\<close>

definition at_num :: "number list \<Rightarrow> nat \<Rightarrow> number" where
  "at_num arr i = (if i < length arr then arr ! i else NaN)"

text \<open>A value the normalizers only pass through (an identifier of a payload).\<close>

datatype jsval = JNum number | JStr string

text \<open>Truthiness of an optional string: \<open>undefined\<close> and the empty string are falsy.\<close>

fun truthy_str :: "string option \<Rightarrow> bool" where
  "truthy_str None = False"
| "truthy_str (Some s) = (s \<noteq> [])"

text \<open>The decimal digits of a natural number, as \<open>"coord" + items.length\<close> prints them.\<close>

fun nat_str :: "nat \<Rightarrow> string" where
  "nat_str n = (if n < 10 then [char_of (48 + n)]
                else nat_str (n div 10) @ [char_of (48 + n mod 10)])"

declare nat_str.simps [simp del]

section \<open>Regular expressions and parseFloat\<close>

definition is_space :: "char \<Rightarrow> bool" where
  "is_space c = ((of_char c :: nat) \<in> {9, 10, 11, 12, 13, 32, 160})"

definition is_digit :: "char \<Rightarrow> bool" where
  "is_digit c = (48 \<le> (of_char c :: nat) \<and> (of_char c :: nat) \<le> 57)"

definition is_sign :: "char \<Rightarrow> bool" where
  "is_sign c = (c = CHR ''+'' \<or> c = CHR ''-'')"

definition is_char :: "char \<Rightarrow> char \<Rightarrow> bool" where
  "is_char a c = (c = a)"

text \<open>
  The patterns of this file are sequences of character classes under \<open>?\<close>, \<open>*\<close> and \<open>+\<close>,
  with capture groups that do not nest, anchored at both ends. \<open>rx_match\<close> is the
  backtracking matcher of JavaScript on them: a quantifier takes a character first
  (greedy) and gives it back when the rest fails. The result is the list of captured
  strings, or None when the text does not match.
\<close>

datatype rx =
    One "char \<Rightarrow> bool"
  | Opt "char \<Rightarrow> bool"
  | Star "char \<Rightarrow> bool"
  | Plus "char \<Rightarrow> bool"
  | GroupOpen
  | GroupClose

fun capture :: "char \<Rightarrow> string option \<Rightarrow> string option" where
  "capture c None = None"
| "capture c (Some acc) = Some (acc @ [c])"

fun rx_match :: "rx list \<Rightarrow> string \<Rightarrow> string list \<Rightarrow> string option \<Rightarrow> string list option" where
  "rx_match [] s caps cur = (if s = [] then Some caps else None)"
| "rx_match (One p # r) s caps cur =
     (case s of [] \<Rightarrow> None
      | c # cs \<Rightarrow> if p c then rx_match r cs caps (capture c cur) else None)"
| "rx_match (Opt p # r) s caps cur =
     (case (case s of [] \<Rightarrow> None
            | c # cs \<Rightarrow> if p c then rx_match r cs caps (capture c cur) else None) of
        Some m \<Rightarrow> Some m
      | None \<Rightarrow> rx_match r s caps cur)"
| "rx_match (Star p # r) s caps cur =
     (case (case s of [] \<Rightarrow> None
            | c # cs \<Rightarrow> if p c then rx_match (Star p # r) cs caps (capture c cur) else None) of
        Some m \<Rightarrow> Some m
      | None \<Rightarrow> rx_match r s caps cur)"
| "rx_match (Plus p # r) s caps cur =
     (case s of [] \<Rightarrow> None
      | c # cs \<Rightarrow> if p c then rx_match (Star p # r) cs caps (capture c cur) else None)"
| "rx_match (GroupOpen # r) s caps cur = rx_match r s caps (Some [])"
| "rx_match (GroupClose # r) s caps cur =
     (case cur of None \<Rightarrow> rx_match r s caps None
      | Some acc \<Rightarrow> rx_match r s (caps @ [acc]) None)"

text \<open>\<open>text.match(re)\<close> for an anchored pattern without the global flag: \<open>null\<close>, or the
  array of the whole match followed by the captured strings.\<close>

definition match :: "string \<Rightarrow> rx list \<Rightarrow> string list option" where
  "match s re = map_option ((#) s) (rx_match re s [] None)"

text \<open>\<open>[+-]?\d+\.?\d*\<close> and \<open>\d+\.?\d*\<close>, each in its capture group.\<close>

definition rx_signed :: "rx list" where
  "rx_signed = [GroupOpen, Opt is_sign, Plus is_digit, Opt (is_char CHR ''.''), Star is_digit,
                GroupClose]"

definition rx_unsigned :: "rx list" where
  "rx_unsigned = [GroupOpen, Plus is_digit, Opt (is_char CHR ''.''), Star is_digit, GroupClose]"

text \<open>\<open>parseFloat\<close>: leading white space, a sign, then the word \<open>Infinity\<close> or digits with
  an optional fraction and an optional exponent; what follows is ignored; NaN when no
  digit is found. The result is the decimal value rounded to binary64.\<close>

fun digits_val :: "int \<Rightarrow> string \<Rightarrow> int" where
  "digits_val acc [] = acc"
| "digits_val acc (c # cs) = digits_val (10 * acc + (of_char c - 48)) cs"

definition exponent :: "string \<Rightarrow> int" where
  "exponent s =
     (case s of
        [] \<Rightarrow> 0
      | e # t \<Rightarrow>
          if e = CHR ''e'' \<or> e = CHR ''E'' then
            (case t of
               [] \<Rightarrow> 0
             | g # u \<Rightarrow>
                 if g = CHR ''-'' then - digits_val 0 (takeWhile is_digit u)
                 else if g = CHR ''+'' then digits_val 0 (takeWhile is_digit u)
                 else digits_val 0 (takeWhile is_digit t))
          else 0)"

definition scale10 :: "rat \<Rightarrow> int \<Rightarrow> rat" where
  "scale10 m e = (if 0 \<le> e then m * 10 ^ nat e else m / 10 ^ nat (- e))"

definition parseFloat :: "string \<Rightarrow> number" where
  "parseFloat s =
     (let s1 = dropWhile is_space s;
          neg = (s1 \<noteq> [] \<and> hd s1 = CHR ''-'');
          s2 = (if s1 \<noteq> [] \<and> is_sign (hd s1) then tl s1 else s1);
          ip = takeWhile is_digit s2;
          r1 = dropWhile is_digit s2;
          dot = (r1 \<noteq> [] \<and> hd r1 = CHR ''.'');
          fp = (if dot then takeWhile is_digit (tl r1) else []);
          r2 = (if dot then dropWhile is_digit (tl r1) else r1);
          m = of_int (digits_val 0 (ip @ fp)) / 10 ^ length fp
      in if take 8 s2 = ''Infinity'' then (if neg then NInf else PInf)
         else if ip = [] \<and> fp = [] then NaN
         else round64 (scale10 (if neg then - m else m) (exponent r2)))"

section \<open>The result model\<close>

text \<open>
  Results are the objects the header comment of the file describes. An item is an object
  literal: a field the literal does not set is absent (None). \<open>SearchResultType\<close> and the
  action creator \<open>addSearchResults\<close> are imported from the qwc2 library; the action is kept
  as the call with its arguments (the second one is absent in one call).
\<close>

datatype SearchResultType = PLACE | THEMELAYER

record bbox_def =
  bbox_crs :: string
  bbox_bounds :: "number list"

record sublayer =
  sl_name :: string
  sl_title :: string
  sl_visibility :: bool
  sl_queryable :: bool
  sl_displayField :: string
  sl_opacity :: nat
  sl_bbox :: bbox_def

record layer_def =
  layer_sublayers :: "sublayer list"

record item =
  item_id :: jsval
  item_type :: "SearchResultType option"
  item_text :: "string option"
  item_label :: "string option"
  item_x :: "number option"
  item_y :: "number option"
  item_crs :: "string option"
  item_bbox :: "number list option"
  item_provider :: "string option"
  item_searchtable :: "string option"
  item_oid :: "jsval option"
  item_category :: "string option"
  item_more :: "bool option"
  item_layer :: "layer_def option"

definition new_item :: "jsval \<Rightarrow> item" where
  "new_item i =
     \<lparr>item_id = i, item_type = None, item_text = None, item_label = None, item_x = None,
      item_y = None, item_crs = None, item_bbox = None, item_provider = None,
      item_searchtable = None, item_oid = None, item_category = None, item_more = None,
      item_layer = None\<rparr>"

record group =
  group_id :: string
  group_title :: "string option"
  group_titlemsgid :: "string option"
  group_items :: "item list"

record search_results =
  data :: "group list"
  provider :: string
  reqId :: nat

datatype action = addSearchResults search_results "bool option"

record search_options =
  displaycrs :: "string option"

text \<open>\<open>a || b\<close> on strings.\<close>

definition or_str :: "string option \<Rightarrow> string \<Rightarrow> string" where
  "or_str a b = (case a of None \<Rightarrow> b | Some s \<Rightarrow> if s \<noteq> [] then s else b)"

section \<open>The coordinates provider\<close>

text \<open>\<open>/^\s*([+-]?\d+\.?\d*)[,\s]\s*([+-]?\d+\.?\d*)\s*$/\<close>\<close>

definition coords_rx :: "rx list" where
  "coords_rx =
     [Star is_space] @ rx_signed @ [One (\<lambda>c. c = CHR '','' \<or> is_space c), Star is_space]
     @ rx_signed @ [Star is_space]"

text \<open>The degree sign is the code unit 0xB0. \<open>toString\<close> is the conversion of a number to
  a string that \<open>+\<close> applies; it is a parameter.\<close>

definition deg :: "string \<Rightarrow> string" where
  "deg s = CHR 0xB0 # s"

text \<open>The items pushed for the parsed pair \<open>x\<close>, \<open>y\<close>: the body of
  \<open>if (matches && matches.length >= 3)\<close> after the two calls of \<open>parseFloat\<close>.\<close>

definition coordinates_items ::
  "(number \<Rightarrow> string) \<Rightarrow> string \<Rightarrow> number \<Rightarrow> number \<Rightarrow> item list" where
  "coordinates_items toString dcrs x y =
     (let items1 =
            (if dcrs \<noteq> ''EPSG:4326'' then
               [(new_item (JStr ''coord0''))
                  \<lparr>item_text := Some (toString x @ '', '' @ toString y @ '' ('' @ dcrs @ '')''),
                   item_x := Some x,
                   item_y := Some y,
                   item_crs := Some dcrs,
                   item_bbox := Some [x, y, x, y]\<rparr>]
             else []);
          items2 =
            (if num_ge x (Num (- 180)) \<and> num_le x (Num 180)
                \<and> num_ge y (Num (- 90)) \<and> num_le y (Num 90) then
               items1 @
               [(new_item (JStr (''coord'' @ nat_str (length items1))))
                  \<lparr>item_text := Some
                     (toString (Math_abs x) @ (if num_ge x (Num 0) then deg ''E'' else deg ''W'')
                      @ '', '' @
                      toString (Math_abs y) @ (if num_ge y (Num 0) then deg ''N'' else deg ''S'')),
                   item_x := Some x,
                   item_y := Some y,
                   item_crs := Some ''EPSG:4326'',
                   item_bbox := Some [x, y, x, y]\<rparr>]
             else items1)
      in if num_ge x (Num (- 90)) \<and> num_le x (Num 90)
            \<and> num_ge y (Num (- 180)) \<and> num_le y (Num 180) \<and> num_strict_neq x y then
           items2 @
           [(new_item (JStr (''coord'' @ nat_str (length items2))))
              \<lparr>item_text := Some
                 (toString (Math_abs y) @ (if num_ge y (Num 0) then deg ''E'' else deg ''W'')
                  @ '', '' @
                  toString (Math_abs x) @ (if num_ge x (Num 0) then deg ''N'' else deg ''S'')),
               item_x := Some y,
               item_y := Some x,
               item_crs := Some ''EPSG:4326'',
               item_bbox := Some [y, x, y, x]\<rparr>]
         else items2)"

definition coordinatesSearch ::
  "(number \<Rightarrow> string) \<Rightarrow> string \<Rightarrow> nat \<Rightarrow> search_options \<Rightarrow> action list" where
  "coordinatesSearch toString text requestId searchOptions =
     (let dcrs = or_str (displaycrs searchOptions) ''EPSG:4326'';
          matches = match text coords_rx;
          items =
            (case matches of
               None \<Rightarrow> []
             | Some ms \<Rightarrow>
                 if length ms \<ge> 3 then
                   coordinates_items toString dcrs (parseFloat (ms ! 1)) (parseFloat (ms ! 2))
                 else []);
          results =
            (if length items > 0 then
               [\<lparr>group_id = ''coords'', group_title = None,
                 group_titlemsgid = Some ''search.coordinates'', group_items = items\<rparr>]
             else [])
      in [addSearchResults \<lparr>data = results, provider = ''coordinates'', reqId = requestId\<rparr> (Some True)])"

text \<open>What a list of dispatched actions delivers.\<close>

fun delivered_groups :: "action \<Rightarrow> group list" where
  "delivered_groups (addSearchResults r a) = data r"

definition delivered_items :: "action list \<Rightarrow> item list" where
  "delivered_items acts = concat (map group_items (concat (map delivered_groups acts)))"

section \<open>Promises and network replies\<close>

text \<open>
  A provider function starts a request with \<open>axios.get\<close> and returns at once; its result
  for the application is what the handlers of the promise chain do later: the actions
  they dispatch, or the calls of the geometry callback. A chain is modelled by the list
  of these effects and by how it settles (\<open>Inl\<close>: rejected). The reply of the server is
  an argument of the model: \<open>Inr d\<close> is a response with \<open>response.data = d\<close>, \<open>Inl e\<close> a
  request that failed. A chain that ends rejected is an unhandled rejection: no code of
  the application receives it.
\<close>

datatype error = TypeError | AxiosError

type_synonym ('e, 'a) promise = "'e list \<times> (error + 'a)"

definition axios_get :: "error + 'a \<Rightarrow> ('e, 'a) promise" where
  "axios_get reply = ([], reply)"

definition then_p :: "('e, 'a) promise \<Rightarrow> ('a \<Rightarrow> ('e, 'b) promise) \<Rightarrow> ('e, 'b) promise" where
  "then_p p h =
     (case snd p of
        Inl e \<Rightarrow> (fst p, Inl e)
      | Inr v \<Rightarrow> (fst p @ fst (h v), snd (h v)))"

definition catch_p :: "('e, 'a) promise \<Rightarrow> (error \<Rightarrow> ('e, 'a) promise) \<Rightarrow> ('e, 'a) promise" where
  "catch_p p h =
     (case snd p of
        Inl e \<Rightarrow> (fst p @ fst (h e), snd (h e))
      | Inr v \<Rightarrow> (fst p, Inr v))"

text \<open>\<open>dispatch(a)\<close> in a handler, and \<open>dispatch(f(...))\<close> where evaluating the argument may
  throw: then nothing is dispatched and the handler's promise is rejected.\<close>

definition dispatch :: "action \<Rightarrow> (action, unit) promise" where
  "dispatch a = ([a], Inr ())"

definition dispatch_result :: "error + action \<Rightarrow> (action, unit) promise" where
  "dispatch_result r = (case r of Inl e \<Rightarrow> ([], Inl e) | Inr a \<Rightarrow> dispatch a)"

text \<open>The names every plain object inherits from \<open>Object.prototype\<close>: \<open>o[k]\<close> is not
  \<open>undefined\<close> and \<open>k in o\<close> is true for them, also when \<open>o\<close> has no such key of its own.\<close>

definition Object_prototype_keys :: "string list" where
  "Object_prototype_keys =
     [''constructor'', ''__defineGetter__'', ''__defineSetter__'', ''hasOwnProperty'',
      ''__lookupGetter__'', ''__lookupSetter__'', ''isPrototypeOf'', ''propertyIsEnumerable'',
      ''toString'', ''valueOf'', ''__proto__'', ''toLocaleString'']"

text \<open>\<open>Object.values(o)\<close> for an object given by its own keys in insertion order: the keys
  that are array indices come first, in ascending order, then the others as inserted.\<close>

definition is_array_index :: "string \<Rightarrow> bool" where
  "is_array_index k =
     (k \<noteq> [] \<and> list_all is_digit k \<and> (k = ''0'' \<or> hd k \<noteq> CHR ''0'')
      \<and> digits_val 0 k < 4294967295)"

definition Object_values :: "(string \<times> 'v) list \<Rightarrow> 'v list" where
  "Object_values kvs =
     map snd (sort_key (\<lambda>kv. digits_val 0 (fst kv)) (filter (\<lambda>kv. is_array_index (fst kv)) kvs)
              @ filter (\<lambda>kv. \<not> is_array_index (fst kv)) kvs)"

section \<open>The geoadmin provider\<close>

text \<open>
  The payloads are modelled at the types the normalizers use them at. A field is optional
  where the source tests its presence; the other fields are present.
\<close>

record geoadmin_attrs =
  ga_origin :: string
  ga_lon :: number
  ga_lat :: number
  ga_label :: string
  ga_geom_st_box2d :: "string option"

record geoadmin_entry =
  ga_id :: jsval
  ga_attrs :: geoadmin_attrs

record geoadmin_payload =
  ga_results :: "geoadmin_entry list option"

text \<open>\<open>a || []\<close> on an optional array, and \<open>arr.map(callback)\<close> used as a loop: the entries
  in order, and an exception thrown by the callback leaves the loop.\<close>

definition or_list :: "'a list option \<Rightarrow> 'a list" where
  "or_list a = (case a of None \<Rightarrow> [] | Some l \<Rightarrow> l)"

fun fold_err :: "('a \<Rightarrow> 's \<Rightarrow> error + 's) \<Rightarrow> 'a list \<Rightarrow> 's \<Rightarrow> error + 's" where
  "fold_err f [] s = Inr s"
| "fold_err f (x # xs) s = (case f x s of Inl e \<Rightarrow> Inl e | Inr s' \<Rightarrow> fold_err f xs s')"

text \<open>\<open>/^BOX\s*\(\s*(\d+\.?\d*)\s*(\d+\.?\d*)\s*,\s*(\d+\.?\d*)\s*(\d+\.?\d*)\s*\)$/\<close>\<close>

definition box_rx :: "rx list" where
  "box_rx =
     [One (is_char CHR ''B''), One (is_char CHR ''O''), One (is_char CHR ''X''), Star is_space,
      One (is_char CHR ''(''), Star is_space]
     @ rx_unsigned @ [Star is_space] @ rx_unsigned
     @ [Star is_space, One (is_char CHR '',''), Star is_space]
     @ rx_unsigned @ [Star is_space] @ rx_unsigned
     @ [Star is_space, One (is_char CHR '')'')]"

text \<open>
  \<open>parseItemBBox\<close>. When the string does not match, \<open>matches\<close> is \<open>null\<close>, the condition
  \<open>matches && matches.length < 5\<close> is falsy, and the function goes on to \<open>matches[1]\<close>,
  which throws a TypeError. \<open>CoordinatesUtils.reprojectBbox\<close> belongs to the qwc2 library
  and is a parameter.
\<close>

definition parseItemBBox ::
  "(number list \<Rightarrow> string \<Rightarrow> string \<Rightarrow> number list) \<Rightarrow> string option
   \<Rightarrow> error + number list option" where
  "parseItemBBox reprojectBbox bboxstr =
     (case bboxstr of
        None \<Rightarrow> Inr None
      | Some s \<Rightarrow>
          (case match s box_rx of
             None \<Rightarrow> Inl TypeError
           | Some ms \<Rightarrow>
               if length ms < 5 then Inr None
               else
                 (let xmin = parseFloat (ms ! 1);
                      ymin = parseFloat (ms ! 2);
                      xmax = parseFloat (ms ! 3);
                      ymax = parseFloat (ms ! 4)
                  in Inr (Some (reprojectBbox [xmin, ymin, xmax, ymax] ''EPSG:21781'' ''EPSG:4326'')))))"

definition categoryMap :: "(string \<times> string) list" where
  "categoryMap =
     [(''gg25'', ''Municipalities''),
      (''kantone'', ''Cantons''),
      (''district'', ''Districts''),
      (''sn25'', ''Places''),
      (''zipcode'', ''Zip Codes''),
      (''address'', ''Address''),
      (''gazetteer'', ''General place name directory'')]"

text \<open>The item pushed for an entry; \<open>bbox\<close> is the value of
  \<open>parseItemBBox(entry.attrs.geom_st_box2d) || [x, y, x, y]\<close>.\<close>

definition geoadmin_item :: "geoadmin_entry \<Rightarrow> number list \<Rightarrow> item" where
  "geoadmin_item entry bbox =
     (new_item (ga_id entry))
       \<lparr>item_text := Some (ga_label (ga_attrs entry)),
        item_x := Some (ga_lon (ga_attrs entry)),
        item_y := Some (ga_lat (ga_attrs entry)),
        item_crs := Some ''EPSG:4326'',
        item_bbox := Some bbox,
        item_provider := Some ''geoadmin''\<rparr>"

text \<open>
  One entry of the loop over \<open>obj.results\<close>. \<open>resultGroups\<close> is the object of the groups,
  given by its own keys in insertion order. For an origin that names a member of
  \<open>Object.prototype\<close>, \<open>resultGroups[origin]\<close> is that member: no group is created, its
  \<open>items\<close> is \<open>undefined\<close>, and \<open>.push\<close> throws.
\<close>

definition geoadmin_entry ::
  "(number list \<Rightarrow> string \<Rightarrow> string \<Rightarrow> number list) \<Rightarrow> geoadmin_entry
   \<Rightarrow> (string \<times> group) list \<Rightarrow> error + (string \<times> group) list" where
  "geoadmin_entry reprojectBbox entry resultGroups =
     (let origin = ga_origin (ga_attrs entry) in
      if origin \<in> set Object_prototype_keys then Inl TypeError
      else
        (let resultGroups1 =
               (if map_of resultGroups origin = None then
                  resultGroups @
                  [(origin,
                    \<lparr>group_id = origin,
                     group_title = Some (or_str (map_of categoryMap origin) origin),
                     group_titlemsgid = None,
                     group_items = []\<rparr>)]
                else resultGroups);
             x = ga_lon (ga_attrs entry);
             y = ga_lat (ga_attrs entry)
         in case parseItemBBox reprojectBbox (ga_geom_st_box2d (ga_attrs entry)) of
              Inl e \<Rightarrow> Inl e
            | Inr parsed \<Rightarrow>
                Inr (map (\<lambda>kg. if fst kg = origin then
                                  (fst kg,
                                   (snd kg)\<lparr>group_items := group_items (snd kg) @
                                     [geoadmin_item entry
                                        (case parsed of None \<Rightarrow> [x, y, x, y] | Some b \<Rightarrow> b)]\<rparr>)
                                else kg)
                       resultGroups1)))"

definition geoAdminLocationSearchResults ::
  "(number list \<Rightarrow> string \<Rightarrow> string \<Rightarrow> number list) \<Rightarrow> geoadmin_payload \<Rightarrow> nat
   \<Rightarrow> error + action" where
  "geoAdminLocationSearchResults reprojectBbox obj requestId =
     (case fold_err (geoadmin_entry reprojectBbox) (or_list (ga_results obj)) [] of
        Inl e \<Rightarrow> Inl e
      | Inr resultGroups \<Rightarrow>
          Inr (addSearchResults
                 \<lparr>data = Object_values resultGroups, provider = ''geoadmin'', reqId = requestId\<rparr>
                 (Some True)))"

definition geoAdminLocationSearch ::
  "(number list \<Rightarrow> string \<Rightarrow> string \<Rightarrow> number list) \<Rightarrow> string \<Rightarrow> nat \<Rightarrow> search_options
   \<Rightarrow> error + geoadmin_payload \<Rightarrow> (action, unit) promise" where
  "geoAdminLocationSearch reprojectBbox text requestId searchOptions reply =
     then_p (axios_get reply)
       (\<lambda>d. dispatch_result (geoAdminLocationSearchResults reprojectBbox d requestId))"

section \<open>The uster and wolfsburg providers\<close>

text \<open>
  Both loops keep \<open>currentgroup\<close>, a reference to the group object pushed last on
  \<open>results\<close>; the reference is the index of that object in \<open>results\<close>, and
  \<open>currentgroup.items.push\<close> changes the object there.
\<close>

record uster_entry =
  us_displaytext :: string
  us_searchtable :: "string option"
  us_bbox :: "number list option"

record uster_payload =
  us_results :: "uster_entry list option"

record loop_state =
  st_results :: "group list"
  st_currentgroup :: "nat option"
  st_groupcounter :: nat
  st_counter :: nat

definition push_item :: "nat \<Rightarrow> item \<Rightarrow> group list \<Rightarrow> group list" where
  "push_item g it results =
     results[g := (results ! g)\<lparr>group_items := group_items (results ! g) @ [it]\<rparr>]"

definition half :: number where
  "half = Num (1 / 2)"

text \<open>The item pushed for an entry with the array \<open>bbox\<close>, when \<open>counter\<close> has the value
  \<open>counter\<close>, and the step of the loop for one entry.\<close>

definition uster_item :: "nat \<Rightarrow> uster_entry \<Rightarrow> number list \<Rightarrow> item" where
  "uster_item counter entry bbox =
     (new_item (JStr (''usterresult'' @ nat_str counter)))
       \<lparr>item_text := Some (us_displaytext entry),
        item_searchtable := us_searchtable entry,
        item_bbox := Some bbox,
        item_x := Some (num_mul half (num_add (at_num bbox 0) (at_num bbox 2))),
        item_y := Some (num_mul half (num_add (at_num bbox 1) (at_num bbox 3))),
        item_crs := Some ''EPSG:21781'',
        item_provider := Some ''uster''\<rparr>"

definition uster_entry :: "uster_entry \<Rightarrow> loop_state \<Rightarrow> loop_state" where
  "uster_entry entry st =
     (case us_bbox entry of
        None \<Rightarrow>
          st\<lparr>st_results := st_results st @
                [\<lparr>group_id = ''ustergroup'' @ nat_str (st_groupcounter st),
                  group_title = Some (us_displaytext entry),
                  group_titlemsgid = None,
                  group_items = []\<rparr>],
             st_currentgroup := Some (length (st_results st)),
             st_groupcounter := st_groupcounter st + 1\<rparr>
      | Some bbox \<Rightarrow>
          (case st_currentgroup st of
             None \<Rightarrow> st
           | Some g \<Rightarrow>
               st\<lparr>st_results :=
                    push_item g (uster_item (st_counter st) entry bbox) (st_results st),
                  st_counter := st_counter st + 1\<rparr>))"

definition loop_init :: loop_state where
  "loop_init = \<lparr>st_results = [], st_currentgroup = None, st_groupcounter = 0, st_counter = 0\<rparr>"

definition usterSearchResults :: "uster_payload \<Rightarrow> nat \<Rightarrow> action" where
  "usterSearchResults obj requestId =
     addSearchResults
       \<lparr>data = st_results (fold uster_entry (or_list (us_results obj)) loop_init),
        provider = ''uster'', reqId = requestId\<rparr>
       (Some True)"

definition usterSearch ::
  "string \<Rightarrow> nat \<Rightarrow> search_options \<Rightarrow> error + uster_payload \<Rightarrow> (action, unit) promise" where
  "usterSearch text requestId searchOptions reply =
     then_p (axios_get reply) (\<lambda>d. dispatch (usterSearchResults d requestId))"

text \<open>A call of the geometry callback: \<open>callback(resultItem, response.data, crs)\<close>.\<close>

type_synonym callback_call = "item \<times> string \<times> string"

definition callback :: "item \<Rightarrow> string \<Rightarrow> string \<Rightarrow> (callback_call, unit) promise" where
  "callback resultItem geometry crs = ([(resultItem, geometry, crs)], Inr ())"

definition usterResultGeometry :: "item \<Rightarrow> error + string \<Rightarrow> (callback_call, unit) promise" where
  "usterResultGeometry resultItem reply =
     then_p (axios_get reply) (\<lambda>d. callback resultItem d ''EPSG:21781'')"

record wolfsburg_entry =
  wb_id :: "jsval option"
  wb_displaytext :: string
  wb_searchtable :: "string option"
  wb_bbox :: "number list option"

record wolfsburg_payload =
  wb_results :: "wolfsburg_entry list option"

definition wolfsburg_item :: "nat \<Rightarrow> wolfsburg_entry \<Rightarrow> number list \<Rightarrow> item" where
  "wolfsburg_item counter entry bbox =
     (new_item (JStr (''wolfsburgresult'' @ nat_str counter)))
       \<lparr>item_text := Some (wb_displaytext entry),
        item_searchtable := wb_searchtable entry,
        item_oid := wb_id entry,
        item_bbox := Some bbox,
        item_x := Some (num_mul half (num_add (at_num bbox 0) (at_num bbox 2))),
        item_y := Some (num_mul half (num_add (at_num bbox 1) (at_num bbox 3))),
        item_crs := Some ''EPSG:25832'',
        item_provider := Some ''wolfsburg''\<rparr>"

definition wolfsburg_entry :: "wolfsburg_entry \<Rightarrow> loop_state \<Rightarrow> loop_state" where
  "wolfsburg_entry entry st =
     (case wb_bbox entry of
        None \<Rightarrow>
          st\<lparr>st_results := st_results st @
                [\<lparr>group_id = ''wolfsburggroup'' @ nat_str (st_groupcounter st),
                  group_title = Some (wb_displaytext entry),
                  group_titlemsgid = None,
                  group_items = []\<rparr>],
             st_currentgroup := Some (length (st_results st)),
             st_groupcounter := st_groupcounter st + 1\<rparr>
      | Some bbox \<Rightarrow>
          (case st_currentgroup st of
             None \<Rightarrow> st
           | Some g \<Rightarrow>
               st\<lparr>st_results :=
                    push_item g (wolfsburg_item (st_counter st) entry bbox) (st_results st),
                  st_counter := st_counter st + 1\<rparr>))"

definition wolfsburgSearchResults :: "wolfsburg_payload \<Rightarrow> nat \<Rightarrow> action" where
  "wolfsburgSearchResults obj requestId =
     addSearchResults
       \<lparr>data = st_results (fold wolfsburg_entry (or_list (wb_results obj)) loop_init),
        provider = ''wolfsburg'', reqId = requestId\<rparr>
       (Some True)"

definition wolfsburgSearch ::
  "string \<Rightarrow> nat \<Rightarrow> search_options \<Rightarrow> error + wolfsburg_payload \<Rightarrow> (action, unit) promise" where
  "wolfsburgSearch text requestId searchOptions reply =
     then_p (axios_get reply) (\<lambda>d. dispatch (wolfsburgSearchResults d requestId))"

definition wolfsburgResultGeometry :: "item \<Rightarrow> error + string \<Rightarrow> (callback_call, unit) promise" where
  "wolfsburgResultGeometry resultItem reply =
     then_p (axios_get reply) (\<lambda>d. callback resultItem d ''EPSG:25832'')"

section \<open>The glarus provider\<close>

record glarus_feature =
  gl_id :: jsval
  gl_name :: string
  gl_bbox :: "number list"

record glarus_group =
  gl_category :: string
  gl_group_name :: string
  gl_features :: "glarus_feature list"

record glarus_payload =
  gl_results :: "glarus_group list option"

text \<open>The item of a feature of a group, and the item that asks for more results.\<close>

definition glarus_item :: "glarus_group \<Rightarrow> glarus_feature \<Rightarrow> item" where
  "glarus_item grp feature =
     (new_item (gl_id feature))
       \<lparr>item_text := Some (gl_name feature),
        item_bbox := Some (gl_bbox feature),
        item_x := Some (num_mul half (num_add (at_num (gl_bbox feature) 0)
                                               (at_num (gl_bbox feature) 2))),
        item_y := Some (num_mul half (num_add (at_num (gl_bbox feature) 1)
                                               (at_num (gl_bbox feature) 3))),
        item_crs := Some ''EPSG:2056'',
        item_provider := Some ''glarus'',
        item_category := Some (gl_category grp)\<rparr>"

definition glarus_more_item :: "nat \<Rightarrow> glarus_group \<Rightarrow> item" where
  "glarus_more_item idcounter grp =
     (new_item (JStr (''glarusmore'' @ nat_str idcounter)))
       \<lparr>item_more := Some True,
        item_provider := Some ''glarus'',
        item_category := Some (gl_category grp)\<rparr>"

text \<open>One group of the loop over \<open>obj.results\<close>; the state is \<open>results\<close> and \<open>idcounter\<close>.\<close>

definition glarus_group :: "int \<Rightarrow> glarus_group \<Rightarrow> group list \<times> nat \<Rightarrow> group list \<times> nat" where
  "glarus_group limit grp st =
     (let results = fst st;
          idcounter = snd st;
          groupResult =
            \<lparr>group_id = gl_category grp,
             group_title = Some (gl_group_name grp),
             group_titlemsgid = None,
             group_items =
               map (glarus_item grp) (gl_features grp)\<rparr>
      in if limit \<ge> 0 \<and> int (length (gl_features grp)) > limit then
           (results @
            [groupResult\<lparr>group_items := group_items groupResult @
               [glarus_more_item idcounter grp]\<rparr>],
            idcounter + 1)
         else (results @ [groupResult], idcounter))"

text \<open>The parameter \<open>limit\<close> has the default value \<open>-1\<close>: None is a call without it.\<close>

definition glarusSearchResults :: "glarus_payload \<Rightarrow> nat \<Rightarrow> int option \<Rightarrow> action" where
  "glarusSearchResults obj requestId limit_arg =
     (let limit = (case limit_arg of None \<Rightarrow> - 1 | Some l \<Rightarrow> l)
      in addSearchResults
           \<lparr>data = fst (fold (glarus_group limit) (or_list (gl_results obj)) ([], 0)),
            provider = ''glarus'', reqId = requestId\<rparr>
           (Some True))"

definition glarusSearch ::
  "string \<Rightarrow> nat \<Rightarrow> search_options \<Rightarrow> error + glarus_payload \<Rightarrow> (action, unit) promise" where
  "glarusSearch text requestId searchOptions reply =
     (let limit = 9
      in catch_p
           (then_p (axios_get reply) (\<lambda>d. dispatch (glarusSearchResults d requestId (Some limit))))
           (\<lambda>e. dispatch (glarusSearchResults \<lparr>gl_results = None\<rparr> requestId (Some limit))))"

definition glarusMoreResults ::
  "item \<Rightarrow> string \<Rightarrow> nat \<Rightarrow> error + glarus_payload \<Rightarrow> (action, unit) promise" where
  "glarusMoreResults moreItem text requestId reply =
     catch_p
       (then_p (axios_get reply) (\<lambda>d. dispatch (glarusSearchResults d requestId None)))
       (\<lambda>e. dispatch (glarusSearchResults \<lparr>gl_results = None\<rparr> requestId None))"

definition glarusResultGeometry :: "item \<Rightarrow> error + string \<Rightarrow> (callback_call, unit) promise" where
  "glarusResultGeometry resultItem reply =
     then_p (axios_get reply) (\<lambda>d. callback resultItem d ''EPSG:2056'')"

section \<open>The nominatim provider\<close>

record nominatim_address =
  nm_town :: "string option"
  nm_city :: "string option"
  nm_state :: "string option"
  nm_country :: "string option"

record nominatim_entry =
  nm_place_id :: jsval
  nm_class :: string
  nm_display_name :: string
  nm_address :: nominatim_address
  nm_boundingbox :: "string list"

text \<open>\<open>s.split(', ')\<close> and \<open>parts.join(', ')\<close>.\<close>

fun split_comma :: "string \<Rightarrow> string \<Rightarrow> string list" where
  "split_comma acc [] = [acc]"
| "split_comma acc [c] = [acc @ [c]]"
| "split_comma acc (c # d # cs) =
     (if c = CHR '','' \<and> d = CHR '' '' then acc # split_comma [] cs
      else split_comma (acc @ [c]) (d # cs))"

fun join_comma :: "string list \<Rightarrow> string" where
  "join_comma [] = []"
| "join_comma [x] = x"
| "join_comma (x # y # ys) = x @ '', '' @ join_comma (y # ys)"

text \<open>
  The state of the loop: \<open>results\<close>, the object \<open>groups\<close> (its own keys, each with the
  index in \<open>results\<close> of the group object it refers to) and \<open>groupcounter\<close>.
  \<open>entry.class in groups\<close> is true for a class that names a member of \<open>Object.prototype\<close>:
  no group is made, \<open>groups[entry.class].items\<close> is \<open>undefined\<close> and \<open>.push\<close> throws.
  \<open>toUpperCase\<close> is a parameter. A slot of \<open>bbox\<close> that \<open>b\<close> does not have is kept as NaN.
\<close>

record nominatim_state =
  ns_results :: "group list"
  ns_groups :: "(string \<times> nat) list"
  ns_groupcounter :: nat

text \<open>The first statement of the loop body: the group of a class not seen before.\<close>

definition nominatim_new_group ::
  "(string \<Rightarrow> string) \<Rightarrow> nominatim_entry \<Rightarrow> nominatim_state \<Rightarrow> nominatim_state" where
  "nominatim_new_group toUpperCase entry st =
     (if \<not> (map_of (ns_groups st) (nm_class entry) \<noteq> None
             \<or> nm_class entry \<in> set Object_prototype_keys) then
        st\<lparr>ns_results := ns_results st @
              [\<lparr>group_id = ''nominatimgroup'' @ nat_str (ns_groupcounter st),
                group_title = Some (toUpperCase (take 1 (nm_class entry))
                                    @ drop 1 (nm_class entry)),
                group_titlemsgid = None,
                group_items = []\<rparr>],
           ns_groups := ns_groups st @ [(nm_class entry, length (ns_results st))],
           ns_groupcounter := ns_groupcounter st + 1\<rparr>
      else st)"

text \<open>The item of an entry: the shortened name, the address fields that are present, and
  the bounding box reordered from \<open>[miny, maxy, minx, maxx]\<close>.\<close>

definition nominatim_item :: "nominatim_entry \<Rightarrow> item" where
  "nominatim_item entry =
     (let text0 = join_comma (take 3 (split_comma [] (nm_display_name entry)));
          label = text0;
          address =
            (if truthy_str (nm_town (nm_address entry))
             then [or_str (nm_town (nm_address entry)) []] else [])
            @ (if truthy_str (nm_city (nm_address entry))
               then [or_str (nm_city (nm_address entry)) []] else [])
            @ (if truthy_str (nm_state (nm_address entry))
               then [or_str (nm_state (nm_address entry)) []] else [])
            @ (if truthy_str (nm_country (nm_address entry))
               then [or_str (nm_country (nm_address entry)) []] else []);
          text1 = (if length address > 0 then text0 @ ''<br/><i>'' @ join_comma address @ ''</i>''
                   else text0);
          b = map parseFloat (nm_boundingbox entry);
          bbox = [at_num b 2, at_num b 0, at_num b 3, at_num b 1]
      in (new_item (nm_place_id entry))
           \<lparr>item_text := Some text1,
            item_label := Some label,
            item_bbox := Some bbox,
            item_x := Some (num_mul half (num_add (at_num bbox 0) (at_num bbox 2))),
            item_y := Some (num_mul half (num_add (at_num bbox 1) (at_num bbox 3))),
            item_crs := Some ''EPSG:4326'',
            item_provider := Some ''nominatim''\<rparr>)"

definition nominatim_entry ::
  "(string \<Rightarrow> string) \<Rightarrow> nominatim_entry \<Rightarrow> nominatim_state \<Rightarrow> error + nominatim_state" where
  "nominatim_entry toUpperCase entry st =
     (let st1 = nominatim_new_group toUpperCase entry st
      in case map_of (ns_groups st1) (nm_class entry) of
           None \<Rightarrow> Inl TypeError
         | Some g \<Rightarrow>
             Inr (st1\<lparr>ns_results := push_item g (nominatim_item entry) (ns_results st1)\<rparr>))"

definition nominatimSearchResults ::
  "(string \<Rightarrow> string) \<Rightarrow> nominatim_entry list option \<Rightarrow> nat \<Rightarrow> error + action" where
  "nominatimSearchResults toUpperCase obj requestId =
     (case fold_err (nominatim_entry toUpperCase) (or_list obj)
             \<lparr>ns_results = [], ns_groups = [], ns_groupcounter = 0\<rparr> of
        Inl e \<Rightarrow> Inl e
      | Inr st \<Rightarrow>
          Inr (addSearchResults
                 \<lparr>data = ns_results st, provider = ''nominatim'', reqId = requestId\<rparr>
                 (Some True)))"

definition nominatimSearch ::
  "(string \<Rightarrow> string) \<Rightarrow> string \<Rightarrow> nat \<Rightarrow> search_options \<Rightarrow> error + nominatim_entry list option
   \<Rightarrow> (action, unit) promise" where
  "nominatimSearch toUpperCase text requestId searchOptions reply =
     then_p (axios_get reply)
       (\<lambda>d. dispatch_result (nominatimSearchResults toUpperCase d requestId))"

section \<open>Providers made from a theme configuration\<close>

record provider_cfg =
  cfg_key :: string
  cfg_label :: "string option"
  cfg_param :: "string option"
  cfg_layerName :: "string option"

definition parametrizedSearch ::
  "provider_cfg \<Rightarrow> string \<Rightarrow> nat \<Rightarrow> search_options \<Rightarrow> error + group list
   \<Rightarrow> (action, unit) promise" where
  "parametrizedSearch cfg text requestId searchOptions reply =
     catch_p
       (then_p (axios_get reply)
          (\<lambda>d. dispatch (addSearchResults \<lparr>data = d, provider = cfg_key cfg, reqId = requestId\<rparr> None)))
       (\<lambda>e. dispatch (addSearchResults \<lparr>data = [], provider = cfg_key cfg, reqId = requestId\<rparr> None))"

text \<open>\<open>searchProviderFactory(cfg)\<close>: the descriptor of a provider of the theme configuration.\<close>

record provider_descriptor =
  pd_label :: "string option"
  pd_onSearch ::
    "string \<Rightarrow> nat \<Rightarrow> search_options \<Rightarrow> error + group list \<Rightarrow> (action, unit) promise"
  pd_requiresLayer :: "string option"

definition searchProviderFactory :: "provider_cfg \<Rightarrow> provider_descriptor" where
  "searchProviderFactory cfg =
     \<lparr>pd_label = cfg_label cfg,
      pd_onSearch = (\<lambda>text requestId searchOptions reply.
                       parametrizedSearch cfg text requestId searchOptions reply),
      pd_requiresLayer = cfg_layerName cfg\<rparr>"


section \<open>The layers provider\<close>

text \<open>\<open>s.toLowerCase()\<close> on code units below 256, and the three shapes of case-insensitive
  tests of the file: \<open>/^w$/i\<close>, and \<open>/^p|s$/i\<close>, which holds for a text that starts with \<open>p\<close> or
  ends with \<open>s\<close>. The letters of these patterns are ASCII letters and digits.\<close>

definition lower_char :: "char \<Rightarrow> char" where
  "lower_char c =
     (let n = (of_char c :: nat)
      in if (65 \<le> n \<and> n \<le> 90) \<or> (192 \<le> n \<and> n \<le> 222 \<and> n \<noteq> 215) then char_of (n + 32) else c)"

definition toLowerCase :: "string \<Rightarrow> string" where
  "toLowerCase s = map lower_char s"

definition lower_ascii :: "char \<Rightarrow> char" where
  "lower_ascii c =
     (let n = (of_char c :: nat) in if 65 \<le> n \<and> n \<le> 90 then char_of (n + 32) else c)"

definition test_whole_i :: "string \<Rightarrow> string \<Rightarrow> bool" where
  "test_whole_i w text = (map lower_ascii text = w)"

definition test_prefix_or_suffix_i :: "string \<Rightarrow> string \<Rightarrow> string \<Rightarrow> bool" where
  "test_prefix_or_suffix_i p s text =
     (take (length p) (map lower_ascii text) = p
      \<or> (length s \<le> length text \<and> drop (length text - length s) (map lower_ascii text) = s))"

text \<open>\<open>arr.slice(start, end)\<close>; a negative index counts from the end, a missing \<open>end\<close> is
  the length.\<close>

definition slice :: "'a list \<Rightarrow> int \<Rightarrow> int option \<Rightarrow> 'a list" where
  "slice arr start end_arg =
     (let n = int (length arr);
          rel = (\<lambda>i. if i < 0 then max (n + i) 0 else min i n);
          k = rel start;
          final = (case end_arg of None \<Rightarrow> n | Some e \<Rightarrow> rel e)
      in take (nat (final - k)) (drop (nat k) arr))"

datatype sublayers_arg = AnArray "sublayer list" | AnObject sublayer

text \<open>The parameter \<open>title\<close> has the default value \<open>'Layers'\<close>.\<close>

definition createLayerSearchResult :: "sublayers_arg \<Rightarrow> string option \<Rightarrow> group" where
  "createLayerSearchResult arg title_arg =
     (let title = (case title_arg of None \<Rightarrow> ''Layers'' | Some t \<Rightarrow> t);
          layer_item =
            (\<lambda>sublayer.
               (new_item (JStr (toLowerCase (sl_name sublayer))))
                 \<lparr>item_type := Some THEMELAYER,
                  item_text := Some (sl_name sublayer),
                  item_layer := Some \<lparr>layer_sublayers = [sublayer]\<rparr>\<rparr>)
      in \<lparr>group_id = ''layers'', group_title = Some title, group_titlemsgid = None,
          group_items =
            (case arg of
               AnArray sublayers \<Rightarrow> map layer_item sublayers
             | AnObject sublayer \<Rightarrow> [layer_item sublayer])\<rparr>)"

definition createLayerSearchSublayers :: "number list list \<Rightarrow> string \<Rightarrow> sublayer list" where
  "createLayerSearchSublayers boundingBoxes type =
     map (\<lambda>(index, bounds).
            let i = index + 1;
                name = type @ (if i < 10 then ''0'' @ nat_str i else nat_str i)
            in \<lparr>sl_name = name, sl_title = name, sl_visibility = True, sl_queryable = True,
                sl_displayField = ''LUNGHEZZA'', sl_opacity = 255,
                sl_bbox = \<lparr>bbox_crs = ''EPSG:4326'', bbox_bounds = bounds\<rparr>\<rparr>)
         (enumerate 0 boundingBoxes)"

definition bigRingTrails :: "number list list" where
  "bigRingTrails =
     [[literal (13084399 / 1000000), literal (4293018 / 100000), literal (13225101 / 1000000), literal (43057469 / 1000000)],
      [literal (13112396 / 1000000), literal (42987247 / 1000000), literal (13156464 / 1000000), literal (43034649 / 1000000)],
      [literal (13154203 / 1000000), literal (42887885 / 1000000), literal (13314918 / 1000000), literal (43065831 / 1000000)],
      [literal (13219384 / 1000000), literal (42888912 / 1000000), literal (13314918 / 1000000), literal (43065831 / 1000000)],
      [literal (13294092 / 1000000), literal (42928977 / 1000000), literal (13317705 / 1000000), literal (42985975 / 1000000)],
      [literal (13299054 / 1000000), literal (42842795 / 1000000), literal (13325479 / 1000000), literal (42929384 / 1000000)],
      [literal (13206974 / 1000000), literal (42756025 / 1000000), literal (13309859 / 1000000), literal (42843539 / 1000000)],
      [literal (13100696 / 1000000), literal (42754517 / 1000000), literal (13209451 / 1000000), literal (42855694 / 1000000)],
      [literal (13079614 / 1000000), literal (42853673 / 1000000), literal (13103259 / 1000000), literal (42930391 / 1000000)]]"

definition bikingTrails :: "number list list" where
  "bikingTrails =
     [[literal (13080975 / 1000000), literal (43060759 / 1000000), literal (13145188 / 1000000), literal (43100081 / 1000000)],
      [literal (13159368 / 1000000), literal (43056278 / 1000000), literal (13253595 / 1000000), literal (43101067 / 1000000)],
      [literal (13226789 / 1000000), literal (430474 / 10000), literal (13268515 / 1000000), literal (43077059 / 1000000)],
      [literal (13139385 / 1000000), literal (42951842 / 1000000), literal (13242815 / 1000000), literal (43042751 / 1000000)],
      [literal (13284902 / 1000000), literal (42942894 / 1000000), literal (13357075 / 1000000), literal (42998809 / 1000000)],
      [literal (13285922 / 1000000), literal (42909734 / 1000000), literal (13346104 / 1000000), literal (42946046 / 1000000)],
      [literal (13298747 / 1000000), literal (42849369 / 1000000), literal (13340322 / 1000000), literal (4290578 / 100000)],
      [literal (13300898 / 1000000), literal (42809218 / 1000000), literal (13342393 / 1000000), literal (42842008 / 1000000)],
      [literal (13270826 / 1000000), literal (42771548 / 1000000), literal (13329335 / 1000000), literal (42813392 / 1000000)],
      [literal (13180091 / 1000000), literal (42764877 / 1000000), literal (13235432 / 1000000), literal (42840299 / 1000000)],
      [literal (13092829 / 1000000), literal (42727978 / 1000000), literal (13155233 / 1000000), literal (42792826 / 1000000)],
      [literal (13032941 / 1000000), literal (42832141 / 1000000), literal (13113966 / 1000000), literal (42882266 / 1000000)],
      [literal (13086874 / 1000000), literal (42848953 / 1000000), literal (13156465 / 1000000), literal (42930494 / 1000000)],
      [literal (13130815 / 1000000), literal (42934986 / 1000000), literal (13201009 / 1000000), literal (42952252 / 1000000)],
      [literal (13084882 / 1000000), literal (42930839 / 1000000), literal (13173372 / 1000000), literal (43036227 / 1000000)],
      [literal (13154752 / 1000000), literal (42965946 / 1000000), literal (13356408 / 1000000), literal (43044449 / 1000000)],
      [literal (13303301 / 1000000), literal (42843753 / 1000000), literal (13349163 / 1000000), literal (42970991 / 1000000)],
      [literal (13103285 / 1000000), literal (42747099 / 1000000), literal (13312094 / 1000000), literal (42844293 / 1000000)],
      [literal (13053018 / 1000000), literal (4278735 / 100000), literal (13121669 / 1000000), literal (42931462 / 1000000)],
      [literal (13088288 / 1000000), literal (42931008 / 1000000), literal (13357308 / 1000000), literal (42990144 / 1000000)]]"

definition hikingTrails :: "number list list" where
  "hikingTrails =
     [[literal (13202855 / 1000000), literal (43079994 / 1000000), literal (13229677 / 1000000), literal (43103703 / 1000000)],
      [literal (13180711 / 1000000), literal (43060704 / 1000000), literal (13232776 / 1000000), literal (43078002 / 1000000)],
      [literal (13205637 / 1000000), literal (42994688 / 1000000), literal (13226363 / 1000000), literal (43008354 / 1000000)],
      [literal (1320152 / 100000), literal (42980893 / 1000000), literal (13231547 / 1000000), literal (42994714 / 1000000)],
      [literal (13207687 / 1000000), literal (42952431 / 1000000), literal (13236698 / 1000000), literal (42988956 / 1000000)],
      [literal (13215823 / 1000000), literal (42950362 / 1000000), literal (13291272 / 1000000), literal (42970564 / 1000000)],
      [literal (1309116 / 100000), literal (42937774 / 1000000), literal (13134399 / 1000000), literal (42975608 / 1000000)],
      [literal (13165058 / 1000000), literal (42909019 / 1000000), literal (13202166 / 1000000), literal (42934866 / 1000000)],
      [literal (13183596 / 1000000), literal (42904182 / 1000000), literal (13312656 / 1000000), literal (42931485 / 1000000)],
      [literal (13248974 / 1000000), literal (42895205 / 1000000), literal (13291616 / 1000000), literal (42913963 / 1000000)],
      [literal (13154204 / 1000000), literal (42844375 / 1000000), literal (13190249 / 1000000), literal (42886117 / 1000000)],
      [literal (13033476 / 1000000), literal (42872574 / 1000000), literal (13080433 / 1000000), literal (42904454 / 1000000)],
      [literal (13156245 / 1000000), literal (42774004 / 1000000), literal (13207173 / 1000000), literal (4282914 / 100000)],
      [literal (13116651 / 1000000), literal (42812346 / 1000000), literal (13158333 / 1000000), literal (42832541 / 1000000)],
      [literal (13256516 / 1000000), literal (42789967 / 1000000), literal (13302878 / 1000000), literal (42851929 / 1000000)],
      [literal (13255466 / 1000000), literal (42770283 / 1000000), literal (13297133 / 1000000), literal (42795152 / 1000000)],
      [literal (13212138 / 1000000), literal (42826894 / 1000000), literal (13270632 / 1000000), literal (42888353 / 1000000)]]"

definition natureTrails :: "number list list" where
  "natureTrails =
     [[literal (13078424 / 1000000), literal (42930684 / 1000000), literal (13093048 / 1000000), literal (42944983 / 1000000)],
      [literal (13099838 / 1000000), literal (43062975 / 1000000), literal (13116469 / 1000000), literal (43073842 / 1000000)],
      [literal (13148219 / 1000000), literal (4303512 / 100000), literal (13168228 / 1000000), literal (43059598 / 1000000)],
      [literal (1329151 / 100000), literal (42972002 / 1000000), literal (13307532 / 1000000), literal (42986422 / 1000000)],
      [literal (13298055 / 1000000), literal (42913438 / 1000000), literal (1331464 / 100000), literal (42931517 / 1000000)],
      [literal (13317468 / 1000000), literal (42898912 / 1000000), literal (13327444 / 1000000), literal (42908303 / 1000000)],
      [literal (13307354 / 1000000), literal (42837146 / 1000000), literal (13322216 / 1000000), literal (42843607 / 1000000)],
      [literal (1327301 / 100000), literal (42771341 / 1000000), literal (13297367 / 1000000), literal (42781444 / 1000000)],
      [literal (13091601 / 1000000), literal (42791864 / 1000000), literal (13108412 / 1000000), literal (42807232 / 1000000)],
      [literal (13036099 / 1000000), literal (42880348 / 1000000), literal (1304361 / 100000), literal (42893419 / 1000000)],
      [literal (13152109 / 1000000), literal (42878041 / 1000000), literal (13161086 / 1000000), literal (42886974 / 1000000)],
      [literal (13139205 / 1000000), literal (42935119 / 1000000), literal (13158339 / 1000000), literal (42943879 / 1000000)],
      [literal (13160321 / 1000000), literal (43020402 / 1000000), literal (13170981 / 1000000), literal (4302849 / 100000)],
      [literal (13216583 / 1000000), literal (42993255 / 1000000), literal (13228745 / 1000000), literal (43004025 / 1000000)],
      [literal (13242159 / 1000000), literal (43046231 / 1000000), literal (13248458 / 1000000), literal (43050647 / 1000000)],
      [literal (13220142 / 1000000), literal (4309214 / 100000), literal (13225891 / 1000000), literal (43103649 / 1000000)]]"

definition bigRingSublayers :: "sublayer list" where
  "bigRingSublayers = createLayerSearchSublayers bigRingTrails ''G''"

definition bikingSublayers :: "sublayer list" where
  "bikingSublayers = createLayerSearchSublayers bikingTrails ''B''"

definition hikingSublayers :: "sublayer list" where
  "hikingSublayers = createLayerSearchSublayers hikingTrails ''E''"

definition natureSublayers :: "sublayer list" where
  "natureSublayers =
     createLayerSearchSublayers natureTrails ''N'' @
     [\<lparr>sl_name = ''N17_1'', sl_title = ''N17_1'', sl_visibility = True, sl_queryable = True,
        sl_displayField = ''LUNGHEZZA'', sl_opacity = 255,
        sl_bbox = \<lparr>bbox_crs = ''EPSG:4326'', bbox_bounds = [literal (1316521 / 100000), literal (4303974 / 100000), literal (13169361 / 1000000), literal (43044502 / 1000000)]\<rparr>\<rparr>,
      \<lparr>sl_name = ''N18_2'', sl_title = ''N18_2'', sl_visibility = True, sl_queryable = True,
        sl_displayField = ''LUNGHEZZA'', sl_opacity = 255,
        sl_bbox = \<lparr>bbox_crs = ''EPSG:4326'', bbox_bounds = [literal (13247802 / 1000000), literal (4276405 / 100000), literal (13260019 / 1000000), literal (42785179 / 1000000)]\<rparr>\<rparr>]"

definition layerSearch :: "string \<Rightarrow> nat \<Rightarrow> search_options \<Rightarrow> action list" where
  "layerSearch text requestId searchOptions =
     (let results =
          if text = ''B'' \<or> text = ''b'' then
            [createLayerSearchResult (AnArray bikingSublayers) None]
          else if text = ''B0'' \<or> text = ''b0'' then
            [createLayerSearchResult (AnArray (slice bikingSublayers 0 (Some 9))) None]
          else if text = ''B1'' \<or> text = ''b1'' then
            [createLayerSearchResult (AnArray (bikingSublayers ! 0 # slice bikingSublayers 9 (Some 19))) None]
          else if text = ''B2'' \<or> text = ''b2'' then
            [createLayerSearchResult (AnArray [bikingSublayers ! 1, bikingSublayers ! 19]) None]
          else if text = ''B01'' \<or> text = ''b01'' then
            [createLayerSearchResult (AnObject (bikingSublayers ! 0)) None]
          else if text = ''B02'' \<or> text = ''b02'' then
            [createLayerSearchResult (AnObject (bikingSublayers ! 1)) None]
          else if text = ''B3'' \<or> text = ''B03'' \<or> text = ''b3'' \<or> text = ''b03'' then
            [createLayerSearchResult (AnObject (bikingSublayers ! 2)) None]
          else if text = ''B4'' \<or> text = ''B04'' \<or> text = ''b4'' \<or> text = ''b04'' then
            [createLayerSearchResult (AnObject (bikingSublayers ! 3)) None]
          else if text = ''B5'' \<or> text = ''B05'' \<or> text = ''b5'' \<or> text = ''b05'' then
            [createLayerSearchResult (AnObject (bikingSublayers ! 4)) None]
          else if text = ''B6'' \<or> text = ''B06'' \<or> text = ''b6'' \<or> text = ''b06'' then
            [createLayerSearchResult (AnObject (bikingSublayers ! 5)) None]
          else if text = ''B7'' \<or> text = ''B07'' \<or> text = ''b7'' \<or> text = ''b07'' then
            [createLayerSearchResult (AnObject (bikingSublayers ! 6)) None]
          else if text = ''B8'' \<or> text = ''B08'' \<or> text = ''b8'' \<or> text = ''b08'' then
            [createLayerSearchResult (AnObject (bikingSublayers ! 7)) None]
          else if text = ''B9'' \<or> text = ''B09'' \<or> text = ''b9'' \<or> text = ''b09'' then
            [createLayerSearchResult (AnObject (bikingSublayers ! 8)) None]
          else if text = ''B10'' \<or> text = ''b10'' then
            [createLayerSearchResult (AnObject (bikingSublayers ! 9)) None]
          else if text = ''B11'' \<or> text = ''b11'' then
            [createLayerSearchResult (AnObject (bikingSublayers ! 10)) None]
          else if text = ''B12'' \<or> text = ''b12'' then
            [createLayerSearchResult (AnObject (bikingSublayers ! 11)) None]
          else if text = ''B13'' \<or> text = ''b13'' then
            [createLayerSearchResult (AnObject (bikingSublayers ! 12)) None]
          else if text = ''B14'' \<or> text = ''b14'' then
            [createLayerSearchResult (AnObject (bikingSublayers ! 13)) None]
          else if text = ''B15'' \<or> text = ''b15'' then
            [createLayerSearchResult (AnObject (bikingSublayers ! 14)) None]
          else if text = ''B16'' \<or> text = ''b16'' then
            [createLayerSearchResult (AnObject (bikingSublayers ! 15)) None]
          else if text = ''B17'' \<or> text = ''b17'' then
            [createLayerSearchResult (AnObject (bikingSublayers ! 16)) None]
          else if text = ''B18'' \<or> text = ''b18'' then
            [createLayerSearchResult (AnObject (bikingSublayers ! 17)) None]
          else if text = ''B19'' \<or> text = ''b19'' then
            [createLayerSearchResult (AnObject (bikingSublayers ! 18)) None]
          else if text = ''B20'' \<or> text = ''b20'' then
            [createLayerSearchResult (AnObject (bikingSublayers ! 19)) None]
          else if text = ''E'' \<or> text = ''e'' then
            [createLayerSearchResult (AnArray hikingSublayers) None]
          else if text = ''E0'' \<or> text = ''e0'' then
            [createLayerSearchResult (AnArray (slice hikingSublayers 0 (Some 9))) None]
          else if text = ''E1'' \<or> text = ''e1'' then
            [createLayerSearchResult (AnArray (hikingSublayers ! 0 # slice hikingSublayers 9 None)) None]
          else if text = ''E01'' \<or> text = ''e01'' then
            [createLayerSearchResult (AnObject (hikingSublayers ! 0)) None]
          else if text = ''E2'' \<or> text = ''E02'' \<or> text = ''e2'' \<or> text = ''e02'' then
            [createLayerSearchResult (AnObject (hikingSublayers ! 1)) None]
          else if text = ''E3'' \<or> text = ''E03'' \<or> text = ''e3'' \<or> text = ''e03'' then
            [createLayerSearchResult (AnObject (hikingSublayers ! 2)) None]
          else if text = ''E4'' \<or> text = ''E04'' \<or> text = ''e4'' \<or> text = ''e04'' then
            [createLayerSearchResult (AnObject (hikingSublayers ! 3)) None]
          else if text = ''E5'' \<or> text = ''E05'' \<or> text = ''e5'' \<or> text = ''e05'' then
            [createLayerSearchResult (AnObject (hikingSublayers ! 4)) None]
          else if text = ''E6'' \<or> text = ''E06'' \<or> text = ''e6'' \<or> text = ''e06'' then
            [createLayerSearchResult (AnObject (hikingSublayers ! 5)) None]
          else if text = ''E7'' \<or> text = ''E07'' \<or> text = ''e7'' \<or> text = ''e07'' then
            [createLayerSearchResult (AnObject (hikingSublayers ! 6)) None]
          else if text = ''E8'' \<or> text = ''E08'' \<or> text = ''e8'' \<or> text = ''e08'' then
            [createLayerSearchResult (AnObject (hikingSublayers ! 7)) None]
          else if text = ''E9'' \<or> text = ''E09'' \<or> text = ''e9'' \<or> text = ''e09'' then
            [createLayerSearchResult (AnObject (hikingSublayers ! 8)) None]
          else if text = ''E10'' \<or> text = ''e10'' then
            [createLayerSearchResult (AnObject (hikingSublayers ! 9)) None]
          else if text = ''E11'' \<or> text = ''e11'' then
            [createLayerSearchResult (AnObject (hikingSublayers ! 10)) None]
          else if text = ''E12'' \<or> text = ''e12'' then
            [createLayerSearchResult (AnObject (hikingSublayers ! 11)) None]
          else if text = ''E13'' \<or> text = ''e13'' then
            [createLayerSearchResult (AnObject (hikingSublayers ! 12)) None]
          else if text = ''E14'' \<or> text = ''e14'' then
            [createLayerSearchResult (AnObject (hikingSublayers ! 13)) None]
          else if text = ''E15'' \<or> text = ''e15'' then
            [createLayerSearchResult (AnObject (hikingSublayers ! 14)) None]
          else if text = ''E16'' \<or> text = ''e16'' then
            [createLayerSearchResult (AnObject (hikingSublayers ! 15)) None]
          else if text = ''E17'' \<or> text = ''e17'' then
            [createLayerSearchResult (AnObject (hikingSublayers ! 16)) None]
          else if text = ''G'' \<or> text = ''G0'' \<or> text = ''g'' \<or> text = ''g0'' then
            [createLayerSearchResult (AnArray bigRingSublayers) None]
          else if text = ''G1'' \<or> text = ''G01'' \<or> text = ''g1'' \<or> text = ''g01'' then
            [createLayerSearchResult (AnObject (bigRingSublayers ! 0)) None]
          else if text = ''G2'' \<or> text = ''G02'' \<or> text = ''g2'' \<or> text = ''g02'' then
            [createLayerSearchResult (AnObject (bigRingSublayers ! 1)) None]
          else if text = ''G3'' \<or> text = ''G03'' \<or> text = ''g3'' \<or> text = ''g03'' then
            [createLayerSearchResult (AnObject (bigRingSublayers ! 2)) None]
          else if text = ''G4'' \<or> text = ''G04'' \<or> text = ''g4'' \<or> text = ''g04'' then
            [createLayerSearchResult (AnObject (bigRingSublayers ! 3)) None]
          else if text = ''G5'' \<or> text = ''G05'' \<or> text = ''g5'' \<or> text = ''g05'' then
            [createLayerSearchResult (AnObject (bigRingSublayers ! 4)) None]
          else if text = ''G6'' \<or> text = ''G06'' \<or> text = ''g6'' \<or> text = ''g06'' then
            [createLayerSearchResult (AnObject (bigRingSublayers ! 5)) None]
          else if text = ''G7'' \<or> text = ''G07'' \<or> text = ''g7'' \<or> text = ''g07'' then
            [createLayerSearchResult (AnObject (bigRingSublayers ! 6)) None]
          else if text = ''G8'' \<or> text = ''G08'' \<or> text = ''g8'' \<or> text = ''g08'' then
            [createLayerSearchResult (AnObject (bigRingSublayers ! 7)) None]
          else if text = ''G9'' \<or> text = ''G09'' \<or> text = ''g9'' \<or> text = ''g09'' then
            [createLayerSearchResult (AnObject (bigRingSublayers ! 8)) None]
          else if test_whole_i ''gab'' text then
            [createLayerSearchResult (AnObject \<lparr>sl_name = ''GAB'', sl_title = ''GAB'', sl_visibility = True,
             sl_queryable = True, sl_displayField = ''LUNGHEZZA'', sl_opacity = 255,
             sl_bbox = \<lparr>bbox_crs = ''EPSG:4326'', bbox_bounds = [literal (13049564 / 1000000), literal (42746306 / 1000000), literal (13362181 / 1000000), literal (43044449 / 1000000)]\<rparr>\<rparr>) None]
          else if test_whole_i ''gas'' text then
            [createLayerSearchResult (AnObject \<lparr>sl_name = ''GAS'', sl_title = ''GAS'', sl_visibility = True,
             sl_queryable = True, sl_displayField = ''ET_ID'', sl_opacity = 255,
             sl_bbox = \<lparr>bbox_crs = ''EPSG:4326'', bbox_bounds = [literal (13075322 / 1000000), literal (42754668 / 1000000), literal (13327618 / 1000000), literal (43066628 / 1000000)]\<rparr>\<rparr>) None]
          else if text = ''N'' \<or> text = ''n'' then
            [createLayerSearchResult (AnArray natureSublayers) None]
          else if text = ''N0'' \<or> text = ''n0'' then
            [createLayerSearchResult (AnArray (slice natureSublayers 0 (Some 9))) None]
          else if text = ''N1'' \<or> text = ''n1'' then
            [createLayerSearchResult (AnArray (natureSublayers ! 0 # slice natureSublayers 9 None)) None]
          else if text = ''N01'' \<or> text = ''n01'' then
            [createLayerSearchResult (AnObject (natureSublayers ! 0)) None]
          else if text = ''N2'' \<or> text = ''N02'' \<or> text = ''n2'' \<or> text = ''n02'' then
            [createLayerSearchResult (AnObject (natureSublayers ! 1)) None]
          else if text = ''N3'' \<or> text = ''N03'' \<or> text = ''n3'' \<or> text = ''n03'' then
            [createLayerSearchResult (AnObject (natureSublayers ! 2)) None]
          else if text = ''N4'' \<or> text = ''N04'' \<or> text = ''n4'' \<or> text = ''n04'' then
            [createLayerSearchResult (AnObject (natureSublayers ! 3)) None]
          else if text = ''N5'' \<or> text = ''N05'' \<or> text = ''n5'' \<or> text = ''n05'' then
            [createLayerSearchResult (AnObject (natureSublayers ! 4)) None]
          else if text = ''N6'' \<or> text = ''N06'' \<or> text = ''n6'' \<or> text = ''n06'' then
            [createLayerSearchResult (AnObject (natureSublayers ! 5)) None]
          else if text = ''N7'' \<or> text = ''N07'' \<or> text = ''n7'' \<or> text = ''n07'' then
            [createLayerSearchResult (AnObject (natureSublayers ! 6)) None]
          else if text = ''N8'' \<or> text = ''N08'' \<or> text = ''n8'' \<or> text = ''n08'' then
            [createLayerSearchResult (AnObject (natureSublayers ! 7)) None]
          else if text = ''N9'' \<or> text = ''N09'' \<or> text = ''n9'' \<or> text = ''n09'' then
            [createLayerSearchResult (AnObject (natureSublayers ! 8)) None]
          else if text = ''N10'' \<or> text = ''n10'' then
            [createLayerSearchResult (AnObject (natureSublayers ! 9)) None]
          else if text = ''N11'' \<or> text = ''n11'' then
            [createLayerSearchResult (AnObject (natureSublayers ! 10)) None]
          else if text = ''N12'' \<or> text = ''n12'' then
            [createLayerSearchResult (AnObject (natureSublayers ! 11)) None]
          else if text = ''N13'' \<or> text = ''n13'' then
            [createLayerSearchResult (AnObject (natureSublayers ! 12)) None]
          else if text = ''N14'' \<or> text = ''n14'' then
            [createLayerSearchResult (AnObject (natureSublayers ! 13)) None]
          else if text = ''N15'' \<or> text = ''n15'' then
            [createLayerSearchResult (AnObject (natureSublayers ! 14)) None]
          else if text = ''N16'' \<or> text = ''n16'' then
            [createLayerSearchResult (AnObject (natureSublayers ! 15)) None]
          else if test_prefix_or_suffix_i ''n17'' ''nt1'' text then
            [createLayerSearchResult (AnObject (natureSublayers ! 16)) None]
          else if test_prefix_or_suffix_i ''n18'' ''nt2'' text then
            [createLayerSearchResult (AnObject (natureSublayers ! 17)) None]
          else if test_whole_i ''nt'' text then
            [createLayerSearchResult (AnArray (slice natureSublayers (- 2) None)) None]
          else []
      in [addSearchResults \<lparr>data = results, provider = ''layers'', reqId = requestId\<rparr>
            (Some True)])"


section \<open>Notions used in the statements\<close>

text \<open>The position of an item: its coordinates, their reference system and its bounding
  box. A place item has all four and is neither a request for more results nor a layer.\<close>

definition place_of ::
  "item \<Rightarrow> number option \<times> number option \<times> string option \<times> number list option" where
  "place_of it = (item_x it, item_y it, item_crs it, item_bbox it)"

definition is_place :: "item \<Rightarrow> bool" where
  "is_place it =
     (item_x it \<noteq> None \<and> item_y it \<noteq> None \<and> item_crs it \<noteq> None \<and> item_bbox it \<noteq> None
      \<and> item_more it = None \<and> item_type it \<noteq> Some THEMELAYER)"

text \<open>The number of strings a pattern captures; \<open>opn\<close> tells whether a group is open.\<close>

fun ncaps :: "rx list \<Rightarrow> bool \<Rightarrow> nat" where
  "ncaps [] opn = 0"
| "ncaps (GroupOpen # r) opn = ncaps r True"
| "ncaps (GroupClose # r) opn = (if opn then 1 else 0) + ncaps r False"
| "ncaps (One p # r) opn = ncaps r opn"
| "ncaps (Opt p # r) opn = ncaps r opn"
| "ncaps (Star p # r) opn = ncaps r opn"
| "ncaps (Plus p # r) opn = ncaps r opn"

text \<open>The request identifier an action carries.\<close>

fun action_reqId :: "action \<Rightarrow> nat" where
  "action_reqId (addSearchResults r a) = reqId r"

text \<open>The item that asks for more results of a category of the glarus provider, and a
  list of items that ends with it.\<close>

definition is_more_marker :: "string \<Rightarrow> item \<Rightarrow> bool" where
  "is_more_marker category it =
     (item_more it = Some True \<and> item_provider it = Some ''glarus''
      \<and> item_category it = Some category)"

definition ends_with_more :: "string \<Rightarrow> item list \<Rightarrow> bool" where
  "ends_with_more category its = (its \<noteq> [] \<and> is_more_marker category (last its))"

text \<open>A property of every item of a list of groups.\<close>

definition all_items :: "(item \<Rightarrow> bool) \<Rightarrow> group list \<Rightarrow> bool" where
  "all_items P gs = list_all (\<lambda>g. list_all P (group_items g)) gs"





text \<open>
  The payloads of uster and wolfsburg as the loops read them. An entry without \<open>bbox\<close> is
  a header. \<open>segments\<close> gives the headers in order, each with the entries that follow it up
  to the next header: the entries with a \<open>bbox\<close> whose nearest header before them it is.
  An entry with a \<open>bbox\<close> before the first header belongs to no header.
\<close>

fun segments :: "('e \<Rightarrow> bool) \<Rightarrow> 'e list \<Rightarrow> ('e \<times> 'e list) list" where
  "segments has_bbox [] = []"
| "segments has_bbox (e # es) =
     (if has_bbox e then segments has_bbox es
      else (e, takeWhile has_bbox es) # segments has_bbox es)"

definition us_has_bbox :: "uster_entry \<Rightarrow> bool" where
  "us_has_bbox e = (us_bbox e \<noteq> None)"

definition wb_has_bbox :: "wolfsburg_entry \<Rightarrow> bool" where
  "wb_has_bbox e = (wb_bbox e \<noteq> None)"

text \<open>The groups that the segments stand for: the group of the \<open>k\<close>-th header is numbered
  \<open>k\<close>, and the items are numbered in one sequence through all groups.\<close>

fun uster_numbered :: "nat \<Rightarrow> uster_entry list \<Rightarrow> item list" where
  "uster_numbered c [] = []"
| "uster_numbered c (e # es) =
     (case us_bbox e of
        None \<Rightarrow> uster_numbered c es
      | Some b \<Rightarrow> uster_item c e b # uster_numbered (Suc c) es)"

fun uster_groups :: "nat \<Rightarrow> nat \<Rightarrow> (uster_entry \<times> uster_entry list) list \<Rightarrow> group list" where
  "uster_groups k c [] = []"
| "uster_groups k c ((h, es) # segs) =
     \<lparr>group_id = ''ustergroup'' @ nat_str k, group_title = Some (us_displaytext h),
      group_titlemsgid = None, group_items = uster_numbered c es\<rparr>
     # uster_groups (Suc k) (c + length es) segs"

fun wolfsburg_numbered :: "nat \<Rightarrow> wolfsburg_entry list \<Rightarrow> item list" where
  "wolfsburg_numbered c [] = []"
| "wolfsburg_numbered c (e # es) =
     (case wb_bbox e of
        None \<Rightarrow> wolfsburg_numbered c es
      | Some b \<Rightarrow> wolfsburg_item c e b # wolfsburg_numbered (Suc c) es)"

fun wolfsburg_groups ::
  "nat \<Rightarrow> nat \<Rightarrow> (wolfsburg_entry \<times> wolfsburg_entry list) list \<Rightarrow> group list" where
  "wolfsburg_groups k c [] = []"
| "wolfsburg_groups k c ((h, es) # segs) =
     \<lparr>group_id = ''wolfsburggroup'' @ nat_str k, group_title = Some (wb_displaytext h),
      group_titlemsgid = None, group_items = wolfsburg_numbered c es\<rparr>
     # wolfsburg_groups (Suc k) (c + length es) segs"

text \<open>Items pushed on the group that is last in a list.\<close>

definition add_items :: "item list \<Rightarrow> group list \<Rightarrow> group list" where
  "add_items its rs =
     (if rs = [] then []
      else butlast rs @ [(last rs)\<lparr>group_items := group_items (last rs) @ its\<rparr>])"

text \<open>In a state of the loops, \<open>currentgroup\<close> is \<open>null\<close> until a group is pushed, and then
  refers to the group pushed last.\<close>

definition state_wf :: "loop_state \<Rightarrow> bool" where
  "state_wf st = (st_currentgroup st =
     (if st_results st = [] then None else Some (length (st_results st) - 1)))"

section \<open>Example payloads\<close>

definition example_header :: uster_entry where
  "example_header = \<lparr>us_displaytext = ''Adressen'', us_searchtable = None, us_bbox = None\<rparr>"

definition example_entry :: uster_entry where
  "example_entry =
     \<lparr>us_displaytext = ''Bahnhofstrasse 1'', us_searchtable = Some ''adressen'',
      us_bbox = Some [Num 0, Num 0, Num 2, Num 4]\<rparr>"


definition example_wb_header :: wolfsburg_entry where
  "example_wb_header =
     \<lparr>wb_id = None, wb_displaytext = ''Infrastruktur'', wb_searchtable = None, wb_bbox = None\<rparr>"

definition example_wb_entry :: wolfsburg_entry where
  "example_wb_entry =
     \<lparr>wb_id = Some (JNum (Num 12)), wb_displaytext = ''Rathaus'',
      wb_searchtable = Some ''Infrastruktur'', wb_bbox = Some [Num 0, Num 0, Num 2, Num 4]\<rparr>"

definition example_geoadmin_entry :: geoadmin_entry where
  "example_geoadmin_entry =
     \<lparr>ga_id = JNum (Num 1),
      ga_attrs = \<lparr>ga_origin = ''gg25'', ga_lon = Num 8, ga_lat = Num 47, ga_label = ''Uster'',
                  ga_geom_st_box2d = None\<rparr>\<rparr>"

definition example_nominatim_entry :: nominatim_entry where
  "example_nominatim_entry =
     \<lparr>nm_place_id = JNum (Num 7), nm_class = ''place'', nm_display_name = ''Bern, Schweiz'',
      nm_address = \<lparr>nm_town = None, nm_city = Some ''Bern'', nm_state = None,
                    nm_country = Some ''Schweiz''\<rparr>,
      nm_boundingbox = [''46'', ''48'', ''7'', ''8'']\<rparr>"

text \<open>A pattern that closes the open group before it opens another, and the start of a
  decimal number: a digit, or a sign and a digit.\<close>

fun closes :: "rx list \<Rightarrow> bool" where
  "closes [] = False"
| "closes (GroupClose # r) = True"
| "closes (GroupOpen # r) = False"
| "closes (One p # r) = closes r"
| "closes (Opt p # r) = closes r"
| "closes (Star p # r) = closes r"
| "closes (Plus p # r) = closes r"

definition starts_number :: "string \<Rightarrow> bool" where
  "starts_number n = (\<exists>c. is_digit c \<and> (n = [c] \<or> (\<exists>g. is_sign g \<and> n = [g, c])))"

definition extends :: "string \<Rightarrow> string \<Rightarrow> bool" where
  "extends acc x = (\<exists>t. x = acc @ t)"


section \<open>Rounding to binary64\<close>

text \<open>The exponent function brackets its argument between two powers of two, rounding is
  monotone, it keeps the values of binary64, and the double of a value of binary64 is a
  value of binary64 or overflows.\<close>

lemma pow2_Suc: "(2::rat) powi (e + 1) = 2 powi e * 2"
  by (simp add: power_int_add_1)

lemma pow2_add: "(2::rat) powi (m + n) = 2 powi m * 2 powi n"
  by (rule power_int_add) simp

lemma pow2_less_cancel: "(2::rat) powi m < 2 powi n \<Longrightarrow> m < n"
  using power_int_increasing[of n m "2::rat"] by (cases "m < n") auto

lemma pow2_le_cancel: "(2::rat) powi m \<le> 2 powi n \<Longrightarrow> m \<le> n"
  using power_int_strict_increasing[of n m "2::rat"] by (cases "m \<le> n") auto

lemma log2_up_spec: "1 \<le> a \<Longrightarrow> 2 powi log2_up a \<le> a \<and> a < 2 powi (log2_up a + 1)"
proof (induction a rule: log2_up.induct)
  case (1 a)
  show ?case
  proof (cases "a < 2")
    case True
    then have "log2_up a = 0" by (subst log2_up.simps) simp
    with True 1(2) show ?thesis by simp
  next
    case False
    then have h: "1 \<le> a / 2" by simp
    have e: "log2_up a = log2_up (a / 2) + 1" using False by (subst log2_up.simps) simp
    from 1(1)[OF False h] show ?thesis
      unfolding e pow2_Suc by (simp add: field_simps)
  qed
qed

lemma log2_down_spec:
  "0 < a \<Longrightarrow> a < 1 \<Longrightarrow> 2 powi log2_down a \<le> a \<and> a < 2 powi (log2_down a + 1)"
proof (induction a rule: log2_down.induct)
  case (1 a)
  have e: "log2_down a = log2_down (2 * a) - 1" using 1(2,3) by (subst log2_down.simps) simp
  show ?case
  proof (cases "1 \<le> 2 * a")
    case True
    then have "log2_down (2 * a) = 0" by (subst log2_down.simps) simp
    with e have "log2_down a = - 1" by simp
    with True 1(3) show ?thesis by (simp add: power_int_minus)
  next
    case False
    have c: "\<not> (a \<le> 0 \<or> 1 \<le> a)" using 1(2,3) by simp
    have "2 powi log2_down (2 * a) \<le> 2 * a \<and> 2 * a < 2 powi (log2_down (2 * a) + 1)"
      using 1(1)[OF c] 1(2) False by simp
    moreover have "(2::rat) powi log2_down (2 * a) = 2 powi (log2_down a) * 2"
      using pow2_Suc[of "log2_down a"] e by simp
    moreover have "(2::rat) powi (log2_down (2 * a) + 1) = 2 powi (log2_down a + 1) * 2"
      using pow2_Suc[of "log2_down a + 1"] e by simp
    ultimately show ?thesis by simp
  qed
qed

lemma ilog2_spec: "0 < a \<Longrightarrow> 2 powi ilog2 a \<le> a \<and> a < 2 powi (ilog2 a + 1)"
  using log2_up_spec[of a] log2_down_spec[of a] by (cases "1 \<le> a") (simp_all add: ilog2_def)

lemma ilog2_unique:
  assumes "2 powi e \<le> a" "a < 2 powi (e + 1)"
  shows "ilog2 a = e"
proof -
  have "0 < (2::rat) powi e" by simp
  with assms have a: "0 < a" by linarith
  from ilog2_spec[OF a] assms have "(2::rat) powi ilog2 a < 2 powi (e + 1)"
    and "(2::rat) powi e < 2 powi (ilog2 a + 1)" by linarith+
  then have "ilog2 a < e + 1" "e < ilog2 a + 1" by (auto dest: pow2_less_cancel)
  then show ?thesis by simp
qed


lemma round_even_of_int [simp]: "round_even (of_int n) = n"
  by (simp add: round_even_def)

lemma round_even_0 [simp]: "round_even 0 = 0"
  using round_even_of_int[of 0] by simp

lemma round_even_bounds: "\<lfloor>t\<rfloor> \<le> round_even t \<and> round_even t \<le> \<lfloor>t\<rfloor> + 1"
  by (simp add: round_even_def Let_def)

lemma round_even_mono:
  assumes "s \<le> t"
  shows "round_even s \<le> round_even t"
proof (cases "\<lfloor>s\<rfloor> = \<lfloor>t\<rfloor>")
  case True
  with assms show ?thesis by (auto simp: round_even_def Let_def)
next
  case False
  with assms have "\<lfloor>s\<rfloor> < \<lfloor>t\<rfloor>" using floor_mono[of s t] by simp
  with round_even_bounds[of s] round_even_bounds[of t] show ?thesis by simp
qed

lemma round_even_le: "t \<le> of_int m \<Longrightarrow> round_even t \<le> m"
  using round_even_mono[of t "of_int m"] by simp

lemma round_even_ge: "of_int m \<le> t \<Longrightarrow> m \<le> round_even t"
  using round_even_mono[of "of_int m" t] by simp

lemma ulp_pos [simp]: "0 < ulp a"
  by (simp add: ulp_def)

lemma ulp_nonneg [simp]: "0 \<le> ulp a"
  by (simp add: ulp_def)

lemma ulp_neq0 [simp]: "ulp a \<noteq> 0"
  by (simp add: ulp_def)

lemma expo_ge [simp]: "- 1022 \<le> expo a"
  by (simp add: expo_def)

lemma ulp_53: "ulp a * 2 ^ 53 = 2 powi (expo a + 1)"
proof -
  have "expo a + 1 = expo a - 52 + 53" by simp
  then have "(2::rat) powi (expo a + 1) = 2 powi (expo a - 52 + 53)" by (rule arg_cong)
  also have "\<dots> = 2 powi (expo a - 52) * 2 powi 53" by (rule pow2_add)
  finally show ?thesis by (simp add: ulp_def)
qed

lemma ulp_52: "ulp a * 2 ^ 52 = 2 powi expo a"
proof -
  have "expo a = expo a - 52 + 52" by simp
  then have "(2::rat) powi expo a = 2 powi (expo a - 52 + 52)" by (rule arg_cong)
  also have "\<dots> = 2 powi (expo a - 52) * 2 powi 52" by (rule pow2_add)
  finally show ?thesis by (simp add: ulp_def)
qed

lemma quot_upper:
  assumes "0 \<le> a"
  shows "a / ulp a \<le> 2 ^ 53"
proof (cases "a = 0")
  case True
  then show ?thesis by simp
next
  case False
  with assms have a: "0 < a" by simp
  have "ilog2 a + 1 \<le> expo a + 1" by (simp add: expo_def)
  then have "(2::rat) powi (ilog2 a + 1) \<le> 2 powi (expo a + 1)"
    by (intro power_int_increasing) simp_all
  with ilog2_spec[OF a] have "a \<le> ulp a * 2 ^ 53" unfolding ulp_53 by linarith
  then show ?thesis by (simp add: pos_divide_le_eq mult.commute)
qed


lemma round_mag_nonneg: "0 \<le> a \<Longrightarrow> 0 \<le> round_mag a"
proof -
  assume "0 \<le> a"
  then have "of_int 0 \<le> a / ulp a" by simp
  then have "0 \<le> round_even (a / ulp a)" by (rule round_even_ge)
  then show ?thesis by (simp add: round_mag_def)
qed




lemma round_mag_is_mag:
  assumes "0 \<le> a"
  shows "is_mag (round_mag a)"
proof -
  have "of_int 0 \<le> a / ulp a" using assms by simp
  then have 1: "0 \<le> round_even (a / ulp a)" by (rule round_even_ge)
  have "a / ulp a \<le> of_int (2 ^ 53)" using quot_upper[OF assms] by simp
  then have 2: "round_even (a / ulp a) \<le> 2 ^ 53" by (rule round_even_le)
  have "round_mag a = of_int (round_even (a / ulp a)) * 2 powi (expo a - 52)"
    by (simp add: round_mag_def ulp_def)
  with 1 2 expo_ge[of a] show ?thesis unfolding is_mag_def by blast
qed

lemma round_mag_of_int:
  assumes "r = of_int m * ulp r"
  shows "round_mag r = r"
proof -
  have "r / ulp r = of_int m * ulp r / ulp r" using assms by simp
  then have "r / ulp r = of_int m" by simp
  then show ?thesis using assms by (simp add: round_mag_def)
qed

lemma is_mag_fix:
  assumes "is_mag r"
  shows "round_mag r = r"
proof -
  from assms obtain n e where r: "r = of_int n * 2 powi (e - 52)"
    and n: "0 \<le> n" "n \<le> 2 ^ 53" and e: "- 1022 \<le> e"
    unfolding is_mag_def by blast
  show ?thesis
  proof (cases "n = 0")
    case True
    with r have "r = of_int 0 * ulp r" by simp
    then show ?thesis by (rule round_mag_of_int)
  next
    case False
    with n have np: "0 < n" by simp
    then have rp: "0 < r" unfolding r by simp
    have "(of_int n :: rat) \<le> of_int (2 ^ 53)" using n(2) by (simp only: of_int_le_iff)
    then have "r \<le> 2 ^ 53 * 2 powi (e - 52)" unfolding r by (intro mult_right_mono) simp_all
    also have "\<dots> = 2 powi (e - 52) * 2 powi 53" by simp
    also have "\<dots> = 2 powi (e - 52 + 53)" by (rule pow2_add[symmetric])
    also have "\<dots> = 2 powi (e + 1)" by (rule arg_cong[where f = "\<lambda>x. 2 powi x"]) simp
    finally have ru: "r \<le> 2 powi (e + 1)" .
    with ilog2_spec[OF rp] have "(2::rat) powi ilog2 r \<le> 2 powi (e + 1)" by linarith
    then have "ilog2 r \<le> e + 1" by (rule pow2_le_cancel)
    with e have k: "expo r \<le> e + 1" by (simp add: expo_def)
    show ?thesis
    proof (cases "expo r \<le> e")
      case True
      have "(2::rat) powi (expo r - 52 + (e - expo r)) = 2 powi (expo r - 52) * 2 powi (e - expo r)"
        by (rule power_int_add) simp
      then have p: "(2::rat) powi (e - 52) = ulp r * 2 ^ nat (e - expo r)"
        using True by (simp add: ulp_def power_int_nonneg_exp)
      have "r = of_int n * (ulp r * 2 ^ nat (e - expo r))"
        by (subst r) (simp only: p[symmetric])
      also have "\<dots> = of_int (n * 2 ^ nat (e - expo r)) * ulp r" by simp
      finally show ?thesis by (rule round_mag_of_int)
    next
      case False
      with k have x: "expo r = e + 1" by simp
      with e have "expo r = ilog2 r" by (simp add: expo_def split: if_splits)
      with x ilog2_spec[OF rp] ru have "r = 2 powi (e + 1)" by simp
      also have "\<dots> = ulp r * 2 ^ 52" unfolding ulp_52 x ..
      finally have "r = of_int (2 ^ 52) * ulp r" by (simp add: mult.commute)
      then show ?thesis by (rule round_mag_of_int)
    qed
  qed
qed


lemma round64_pos:
  "0 < q \<Longrightarrow> round64 q = (if 2 powi 1024 \<le> round_mag q then PInf else Num (round_mag q))"
  by (simp add: round64_def)


lemma round64_zero [simp]: "round64 0 = Num 0"
  by (simp add: round64_def)


lemma round64_bound: "round64 q = Num r \<Longrightarrow> \<bar>r\<bar> < 2 powi 1024"
  using round_mag_nonneg[of "\<bar>q\<bar>"]
  by (auto simp: round64_def Let_def split: if_splits)

lemma round64_abs: "round64 q = Num r \<Longrightarrow> \<bar>r\<bar> = round_mag \<bar>q\<bar>"
  using round_mag_nonneg[of "\<bar>q\<bar>"]
  by (auto simp: round64_def Let_def round_mag_def split: if_splits)

lemma round64_is_mag: "round64 q = Num r \<Longrightarrow> is_mag \<bar>r\<bar>"
  using round_mag_is_mag[of "\<bar>q\<bar>"] by (simp add: round64_abs)

lemma round64_fix:
  assumes "is_mag \<bar>q\<bar>" "\<bar>q\<bar> < 2 powi 1024"
  shows "round64 q = Num q"
  using is_mag_fix[OF assms(1)] assms(2) by (auto simp: round64_def Let_def)

lemma round64_idem: "round64 q = Num r \<Longrightarrow> round64 r = Num r"
  by (intro round64_fix round64_is_mag round64_bound)



text \<open>Evaluation of the rounding at a given number: from the two powers of two around
  it, or from its form \<open>n * 2^k\<close> when it is a value of binary64.\<close>

lemma round64_not_NaN [simp]: "round64 q \<noteq> NaN"
  by (simp add: round64_def Let_def)

lemma round64_bracket:
  assumes "2 powi e \<le> q" "q < 2 powi (e + 1)" "- 1022 \<le> e"
  shows "round64 q =
           (let r = of_int (round_even (q / 2 powi (e - 52))) * 2 powi (e - 52)
            in if 2 powi 1024 \<le> r then PInf else Num r)"
proof -
  have "0 < (2::rat) powi e" by simp
  with assms(1) have q: "0 < q" by linarith
  have "ilog2 q = e" using assms(1,2) by (rule ilog2_unique)
  then have "expo q = e" using assms(3) by (simp add: expo_def)
  then show ?thesis using q by (simp add: round64_pos round_mag_def ulp_def Let_def)
qed

lemma round_even_near:
  assumes "of_int n - 1 / 2 < t" "t < of_int n + 1 / 2"
  shows "round_even t = n"
proof -
  have "\<lfloor>t\<rfloor> = n \<or> \<lfloor>t\<rfloor> = n - 1" using assms by linarith
  then show ?thesis
  proof
    assume f: "\<lfloor>t\<rfloor> = n"
    then show ?thesis using assms by (simp add: round_even_def Let_def)
  next
    assume f: "\<lfloor>t\<rfloor> = n - 1"
    then show ?thesis using assms by (simp add: round_even_def Let_def)
  qed
qed


lemma round64_exact:
  assumes "q = of_int n * 2 powi k" "\<bar>n\<bar> \<le> 2 ^ 53" "- 1074 \<le> k" "\<bar>q\<bar> < 2 powi 1024"
  shows "round64 q = Num q"
proof -
  have "\<bar>q\<bar> = of_int \<bar>n\<bar> * 2 powi (k + 52 - 52)" by (simp add: assms(1) abs_mult)
  moreover have "- 1022 \<le> k + 52" using assms(3) by simp
  ultimately have "is_mag \<bar>q\<bar>" unfolding is_mag_def using assms(2) abs_ge_zero[of n] by blast
  then show ?thesis using assms(4) by (rule round64_fix)
qed

lemma round64_of_int: "\<bar>n\<bar> \<le> 2 ^ 53 \<Longrightarrow> round64 (of_int n) = Num (of_int n)"
proof -
  assume n: "\<bar>n\<bar> \<le> 2 ^ 53"
  then have "(of_int \<bar>n\<bar> :: rat) \<le> of_int (2 ^ 53)" by (simp only: of_int_le_iff)
  then have "\<bar>of_int n :: rat\<bar> < 2 powi 1024" by simp
  with n show ?thesis by (intro round64_exact[of _ n 0]) simp_all
qed


section \<open>Matching and evaluation\<close>

lemma capture_None [simp]: "(capture c cur = None) = (cur = None)"
  by (cases cur) auto

lemma rx_match_length:
  "rx_match r s caps cur = Some res \<Longrightarrow> length res = length caps + ncaps r (cur \<noteq> None)"
proof (induction r s caps cur arbitrary: res rule: rx_match.induct)
  case (1 s caps cur)
  then show ?case by (simp split: if_splits)
next
  case (2 p r s caps cur)
  then show ?case by (cases s) (auto split: if_splits)
next
  case (3 p r s caps cur)
  then show ?case by (cases s) (auto split: if_splits option.splits)
next
  case (4 p r s caps cur)
  then show ?case by (cases s) (auto split: if_splits option.splits)
next
  case (5 p r s caps cur)
  then show ?case by (cases s) (auto split: if_splits)
next
  case (6 r s caps cur)
  then show ?case by simp
next
  case (7 r s caps cur)
  then show ?case by (cases cur) auto
qed

text \<open>A match of the coordinate pattern is the whole text and two captured strings.\<close>

lemma match_coords_length:
  assumes "match text coords_rx = Some ms"
  shows "length ms = 3"
proof -
  from assms obtain z where z: "rx_match coords_rx text [] None = Some z" and ms: "ms = text # z"
    by (auto simp: match_def)
  have "length z = length ([]::string list) + ncaps coords_rx (None \<noteq> (None::string option))"
    using rx_match_length[OF z] by simp
  then show ?thesis using ms by (simp add: coords_rx_def rx_signed_def)
qed

lemmas rx_eval = match_def coords_rx_def rx_signed_def rx_unsigned_def is_digit_def is_char_def
  is_space_def is_sign_def

lemmas parseFloat_eval = parseFloat_def exponent_def scale10_def is_digit_def is_space_def
  is_sign_def

lemmas promise_defs = then_p_def catch_p_def axios_get_def dispatch_def dispatch_result_def
  callback_def

section \<open>Items of the loops\<close>

lemma all_items_append [simp]:
  "all_items P (gs @ hs) = (all_items P gs \<and> all_items P hs)"
  by (simp add: all_items_def)

lemma all_items_Nil [simp]: "all_items P []"
  by (simp add: all_items_def)

lemma all_items_Cons [simp]:
  "all_items P (g # gs) = (list_all P (group_items g) \<and> all_items P gs)"
  by (simp add: all_items_def)

lemma all_items_delivered:
  "all_items P gs = list_all P (concat (map group_items gs))"
  by (induction gs) auto

lemma all_items_push:
  assumes "all_items P rs" "P it"
  shows "all_items P (push_item g it rs)"
proof (cases "g < length rs")
  case True
  then have "rs ! g \<in> set rs" by simp
  then have old: "list_all P (group_items (rs ! g))"
    using assms(1) by (simp add: all_items_def list_all_iff)
  have "list_all P (group_items h)" if "h \<in> set (push_item g it rs)" for h
  proof -
    from that have "h \<in> insert ((rs ! g)\<lparr>group_items := group_items (rs ! g) @ [it]\<rparr>) (set rs)"
      using set_update_subset_insert[of rs g] by (auto simp: push_item_def)
    then show ?thesis
      using old assms by (auto simp: all_items_def list_all_iff)
  qed
  then show ?thesis by (simp add: all_items_def list_all_iff)
next
  case False
  then show ?thesis using assms(1) by (simp add: push_item_def list_update_beyond)
qed

lemma uster_entry_items:
  assumes "all_items P (st_results st)" "\<And>c b. P (uster_item c e b)"
  shows "all_items P (st_results (uster_entry e st))"
  using assms by (auto simp: uster_entry_def all_items_push split: option.splits)

lemma uster_fold_items:
  assumes "\<And>c e b. P (uster_item c e b)"
  shows "all_items P (st_results st) \<Longrightarrow> all_items P (st_results (fold uster_entry es st))"
  by (induction es arbitrary: st) (auto simp: uster_entry_items assms)

lemma uster_items:
  assumes "\<And>c e b. P (uster_item c e b)"
  shows "list_all P (delivered_items [usterSearchResults obj rid])"
  using uster_fold_items[of P loop_init "or_list (us_results obj)"] assms
  by (simp add: usterSearchResults_def delivered_items_def all_items_delivered loop_init_def)

lemma wolfsburg_entry_items:
  assumes "all_items P (st_results st)" "\<And>c b. P (wolfsburg_item c e b)"
  shows "all_items P (st_results (wolfsburg_entry e st))"
  using assms by (auto simp: wolfsburg_entry_def all_items_push split: option.splits)

lemma wolfsburg_fold_items:
  assumes "\<And>c e b. P (wolfsburg_item c e b)"
  shows "all_items P (st_results st) \<Longrightarrow> all_items P (st_results (fold wolfsburg_entry es st))"
  by (induction es arbitrary: st) (auto simp: wolfsburg_entry_items assms)

lemma wolfsburg_items:
  assumes "\<And>c e b. P (wolfsburg_item c e b)"
  shows "list_all P (delivered_items [wolfsburgSearchResults obj rid])"
  using wolfsburg_fold_items[of P loop_init "or_list (wb_results obj)"] assms
  by (simp add: wolfsburgSearchResults_def delivered_items_def all_items_delivered loop_init_def)

lemma glarus_group_items:
  assumes "all_items P (fst st)" "\<And>f. P (glarus_item grp f)" "\<And>k. P (glarus_more_item k grp)"
  shows "all_items P (fst (glarus_group limit grp st))"
  using assms by (auto simp: glarus_group_def Let_def list_all_iff)

lemma glarus_fold_items:
  assumes "\<And>grp f. P (glarus_item grp f)" "\<And>k grp. P (glarus_more_item k grp)"
  shows "all_items P (fst st) \<Longrightarrow> all_items P (fst (fold (glarus_group limit) gs st))"
  by (induction gs arbitrary: st) (auto simp: glarus_group_items assms)

lemma glarus_items:
  assumes "\<And>grp f. P (glarus_item grp f)" "\<And>k grp. P (glarus_more_item k grp)"
  shows "list_all P (delivered_items [glarusSearchResults obj rid limit_arg])"
  using glarus_fold_items[of P "([], 0)" _ "or_list (gl_results obj)"] assms
  by (simp add: glarusSearchResults_def delivered_items_def all_items_delivered Let_def)

lemma fold_err_invariant:
  assumes "fold_err f xs s = Inr s'" "I s" "\<And>x s s'. f x s = Inr s' \<Longrightarrow> I s \<Longrightarrow> I s'"
  shows "I s'"
  using assms(1,2)
proof (induction xs arbitrary: s)
  case Nil
  then show ?case by simp
next
  case (Cons x xs)
  then show ?case by (auto split: sum.splits intro: assms(3))
qed

lemma nominatim_entry_items:
  assumes "nominatim_entry up e st = Inr st'" "all_items P (ns_results st)"
    "P (nominatim_item e)"
  shows "all_items P (ns_results st')"
proof -
  have st1: "all_items P (ns_results (nominatim_new_group up e st))"
    using assms(2) by (simp add: nominatim_new_group_def)
  from assms(1) obtain g where
    "st' = (nominatim_new_group up e st)
             \<lparr>ns_results := push_item g (nominatim_item e) (ns_results (nominatim_new_group up e st))\<rparr>"
    by (auto simp: nominatim_entry_def Let_def split: option.splits)
  then show ?thesis
    using all_items_push[OF st1 assms(3)] by simp
qed

lemma nominatim_items:
  assumes "nominatimSearchResults up obj rid = Inr a" "\<And>e. P (nominatim_item e)"
  shows "list_all P (delivered_items [a])"
proof -
  from assms(1) obtain st where
    f: "fold_err (nominatim_entry up) (or_list obj)
          \<lparr>ns_results = [], ns_groups = [], ns_groupcounter = 0\<rparr> = Inr st"
    and a: "a = addSearchResults \<lparr>data = ns_results st, provider = ''nominatim'', reqId = rid\<rparr> (Some True)"
    by (auto simp: nominatimSearchResults_def split: sum.splits)
  have "all_items P (ns_results st)"
    by (rule fold_err_invariant[OF f, where I = "\<lambda>s. all_items P (ns_results s)"])
       (auto intro: nominatim_entry_items assms(2))
  then show ?thesis using a by (simp add: delivered_items_def all_items_delivered)
qed

lemma geoadmin_entry_items:
  assumes "geoadmin_entry rp e rg = Inr rg'" "all_items P (map snd rg)"
    "\<And>b. P (geoadmin_item e b)"
  shows "all_items P (map snd rg')"
  using assms
  by (auto simp: geoadmin_entry_def Let_def all_items_def list_all_iff
        split: option.splits if_splits sum.splits)

lemma set_Object_values: "set (Object_values kvs) = snd ` set kvs"
  by (auto simp: Object_values_def)

lemma geoadmin_items:
  assumes "geoAdminLocationSearchResults rp obj rid = Inr a" "\<And>e b. P (geoadmin_item e b)"
  shows "list_all P (delivered_items [a])"
proof -
  from assms(1) obtain rg where
    f: "fold_err (geoadmin_entry rp) (or_list (ga_results obj)) [] = Inr rg"
    and a: "a = addSearchResults \<lparr>data = Object_values rg, provider = ''geoadmin'', reqId = rid\<rparr> (Some True)"
    by (auto simp: geoAdminLocationSearchResults_def split: sum.splits)
  have "all_items P (map snd rg)"
    by (rule fold_err_invariant[OF f, where I = "\<lambda>s. all_items P (map snd s)"])
       (auto intro: geoadmin_entry_items assms(2))
  then have "all_items P (Object_values rg)"
    by (simp add: all_items_def list_all_iff set_Object_values)
  then show ?thesis using a by (simp add: delivered_items_def all_items_delivered)
qed


section \<open>Failed requests\<close>

text \<open>\<open>glarusSearch\<close>, \<open>glarusMoreResults\<close> and \<open>parametrizedSearch\<close> end their chain with a
  \<open>catch\<close> handler: a failed request is delivered as an empty list of groups.\<close>

lemma glarusSearch_catches:
  "glarusSearch text rid opts (Inl e) =
     ([addSearchResults \<lparr>data = [], provider = ''glarus'', reqId = rid\<rparr> (Some True)], Inr ())"
  by (simp add: glarusSearch_def glarusSearchResults_def promise_defs or_list_def)

lemma glarusMoreResults_catches:
  "glarusMoreResults moreItem text rid (Inl e) =
     ([addSearchResults \<lparr>data = [], provider = ''glarus'', reqId = rid\<rparr> (Some True)], Inr ())"
  by (simp add: glarusMoreResults_def glarusSearchResults_def promise_defs or_list_def)

lemma parametrizedSearch_catches:
  "parametrizedSearch cfg text rid opts (Inl e) =
     ([addSearchResults \<lparr>data = [], provider = cfg_key cfg, reqId = rid\<rparr> None], Inr ())"
  by (simp add: parametrizedSearch_def promise_defs)

text \<open>
  C1. Every provider search function should turn a failed request into the delivery of an
  empty list of groups. The chains of \<open>nominatimSearch\<close>, \<open>usterSearch\<close>, \<open>wolfsburgSearch\<close>
  and \<open>geoAdminLocationSearch\<close> have no \<open>catch\<close> handler: when the request fails they
  dispatch nothing, and the promise stays rejected.
\<close>

theorem search_without_catch:
  "nominatimSearch toUpperCase text rid opts (Inl AxiosError) = ([], Inl AxiosError)
   \<and> usterSearch text rid opts (Inl AxiosError) = ([], Inl AxiosError)
   \<and> wolfsburgSearch text rid opts (Inl AxiosError) = ([], Inl AxiosError)
   \<and> geoAdminLocationSearch reprojectBbox text rid opts (Inl AxiosError) = ([], Inl AxiosError)"
  by (simp add: nominatimSearch_def usterSearch_def wolfsburgSearch_def
        geoAdminLocationSearch_def promise_defs)


section \<open>The geoadmin provider: a box that does not match\<close>

lemma box_no_match: "match ''BOX(1 2,3 4'' box_rx = None"
  by (simp add: rx_eval box_rx_def)

lemma box_match: "match ''BOX(1 2,3 4)'' box_rx = Some [''BOX(1 2,3 4)'', ''1'', ''2'', ''3'', ''4'']"
  by (simp add: rx_eval box_rx_def)

lemma parseItemBBox_no_match:
  "match s box_rx = None \<Longrightarrow> parseItemBBox reprojectBbox (Some s) = Inl TypeError"
  by (simp add: parseItemBBox_def)

lemma fold_err_TypeError:
  assumes "\<And>x s e. f x s = Inl e \<Longrightarrow> e = TypeError"
    and "x \<in> set xs" and "\<And>s. f x s = Inl TypeError"
  shows "fold_err f xs s = Inl TypeError"
  using assms(2)
proof (induction xs arbitrary: s)
  case Nil
  then show ?case by simp
next
  case (Cons a xs)
  show ?case
  proof (cases "f a s")
    case (Inl e)
    then show ?thesis using assms(1)[OF Inl] by simp
  next
    case (Inr s')
    from Cons.prems have "a = x \<or> x \<in> set xs" by auto
    then show ?thesis
    proof
      assume "a = x"
      then show ?thesis using Inr assms(3)[of s] by simp
    next
      assume "x \<in> set xs"
      then show ?thesis using Inr Cons.IH by simp
    qed
  qed
qed

lemma geoadmin_entry_error:
  "geoadmin_entry reprojectBbox entry rg = Inl e \<Longrightarrow> e = TypeError"
  by (auto simp: geoadmin_entry_def parseItemBBox_def Let_def
        split: if_splits option.splits sum.splits)

lemma geoadmin_entry_no_match:
  assumes "ga_geom_st_box2d (ga_attrs entry) = Some s" "match s box_rx = None"
  shows "geoadmin_entry reprojectBbox entry rg = Inl TypeError"
  using assms by (simp add: geoadmin_entry_def Let_def parseItemBBox_def)

lemma geoadmin_one_bad_entry:
  assumes "entry \<in> set entries" "ga_geom_st_box2d (ga_attrs entry) = Some s"
    "match s box_rx = None"
  shows "geoAdminLocationSearchResults reprojectBbox \<lparr>ga_results = Some entries\<rparr> rid = Inl TypeError"
proof -
  have "fold_err (geoadmin_entry reprojectBbox) entries [] = Inl TypeError"
    by (rule fold_err_TypeError[where x = entry])
       (auto simp: assms geoadmin_entry_no_match dest: geoadmin_entry_error)
  then show ?thesis by (simp add: geoAdminLocationSearchResults_def or_list_def)
qed

text \<open>
  C2. An entry whose \<open>geom_st_box2d\<close> is present and does not match the pattern should be
  skipped, or get the box of its point, and the entries beside it should be normalized.
  In the code \<open>parseItemBBox\<close> throws on such a string, and the exception ends the whole
  normalization: for a payload of three entries, the second with the box \<open>BOX(1 2,3 4\<close>,
  no result is returned (and \<open>geoadmin_one_bad_entry\<close>: so it is for every payload with
  such an entry).
\<close>

theorem geoadmin_malformed_box_aborts:
  "geoAdminLocationSearchResults reprojectBbox
     \<lparr>ga_results = Some
        [\<lparr>ga_id = JNum (Num 1),
          ga_attrs = \<lparr>ga_origin = ''gg25'', ga_lon = Num 8, ga_lat = Num 47, ga_label = ''Uster'',
                      ga_geom_st_box2d = None\<rparr>\<rparr>,
         \<lparr>ga_id = JNum (Num 2),
          ga_attrs = \<lparr>ga_origin = ''gg25'', ga_lon = Num 8, ga_lat = Num 47, ga_label = ''Bern'',
                      ga_geom_st_box2d = Some ''BOX(1 2,3 4''\<rparr>\<rparr>,
         \<lparr>ga_id = JNum (Num 3),
          ga_attrs = \<lparr>ga_origin = ''gg25'', ga_lon = Num 8, ga_lat = Num 47, ga_label = ''Chur'',
                      ga_geom_st_box2d = None\<rparr>\<rparr>]\<rparr>
     rid = Inl TypeError"
  by (simp add: geoAdminLocationSearchResults_def or_list_def geoadmin_entry_def Let_def
        parseItemBBox_def box_no_match Object_prototype_keys_def categoryMap_def)


section \<open>The coordinates provider: candidates\<close>

text \<open>The two strings that the coordinate pattern captures are read as numbers by
  \<open>parseFloat\<close>: each starts with a digit, or with a sign and a digit.\<close>

lemma rx_skip_Star:
  "rx_match (Star p # k) s caps cur = Some res \<Longrightarrow>
   \<exists>s' cur'. rx_match k s' caps cur' = Some res \<and> (cur' = None) = (cur = None)"
proof (induction s arbitrary: cur)
  case Nil
  then show ?case by (auto split: option.splits)
next
  case (Cons c cs)
  show ?case
  proof (cases "p c \<and> rx_match (Star p # k) cs caps (capture c cur) \<noteq> None")
    case True
    then have "rx_match (Star p # k) cs caps (capture c cur) = Some res"
      using Cons.prems by (auto split: option.splits)
    from Cons.IH[OF this] show ?thesis by simp
  next
    case False
    then have "rx_match k (c # cs) caps cur = Some res"
      using Cons.prems by (auto split: option.splits if_splits)
    then show ?thesis by blast
  qed
qed

lemma rx_skip_One:
  "rx_match (One p # k) s caps cur = Some res \<Longrightarrow>
   \<exists>s' cur'. rx_match k s' caps cur' = Some res \<and> (cur' = None) = (cur = None)"
proof (cases s)
  case Nil
  assume "rx_match (One p # k) s caps cur = Some res"
  then show ?thesis using Nil by simp
next
  case (Cons c cs)
  assume "rx_match (One p # k) s caps cur = Some res"
  then have "rx_match k cs caps (capture c cur) = Some res"
    using Cons by (simp split: if_splits)
  then show ?thesis
    by (intro exI[of _ cs] exI[of _ "capture c cur"]) simp
qed

lemma rx_skip_Opt:
  "rx_match (Opt p # k) s caps cur = Some res \<Longrightarrow>
   \<exists>s' cur'. rx_match k s' caps cur' = Some res \<and> (cur' = None) = (cur = None)"
proof (cases "\<exists>c cs. s = c # cs \<and> p c \<and> rx_match k cs caps (capture c cur) \<noteq> None")
  case True
  then obtain c cs where s: "s = c # cs" "p c" "rx_match k cs caps (capture c cur) \<noteq> None"
    by blast
  assume "rx_match (Opt p # k) s caps cur = Some res"
  then have "rx_match k cs caps (capture c cur) = Some res"
    using s by (auto split: option.splits)
  then show ?thesis
    by (intro exI[of _ cs] exI[of _ "capture c cur"]) simp
next
  case False
  assume "rx_match (Opt p # k) s caps cur = Some res"
  then have "rx_match k s caps cur = Some res"
    using False by (cases s) (auto split: option.splits if_splits)
  then show ?thesis by blast
qed

lemma rx_number_start:
  assumes "rx_match (Opt is_sign # Plus is_digit # k) s caps (Some []) = Some res"
  shows "\<exists>s' n. starts_number n \<and> rx_match (Star is_digit # k) s' caps (Some n) = Some res"
proof (cases "\<exists>g cs. s = g # cs \<and> is_sign g
                 \<and> rx_match (Plus is_digit # k) cs caps (Some [g]) \<noteq> None")
  case True
  then obtain g cs where s: "s = g # cs" "is_sign g"
    "rx_match (Plus is_digit # k) cs caps (Some [g]) \<noteq> None" by blast
  then have "rx_match (Plus is_digit # k) cs caps (Some [g]) = Some res"
    using assms by (auto split: option.splits)
  then obtain c cs' where "cs = c # cs'" "is_digit c"
    "rx_match (Star is_digit # k) cs' caps (Some [g, c]) = Some res"
    by (cases cs) (auto split: if_splits)
  then show ?thesis using s(2) by (auto simp: starts_number_def)
next
  case False
  then have "rx_match (Plus is_digit # k) s caps (Some []) = Some res"
    using assms by (cases s) (auto split: option.splits if_splits)
  then obtain c cs' where "s = c # cs'" "is_digit c"
    "rx_match (Star is_digit # k) cs' caps (Some [c]) = Some res"
    by (cases s) (auto split: if_splits)
  then show ?thesis by (auto simp: starts_number_def)
qed

lemma extends_snoc: "extends (acc @ [c]) x \<Longrightarrow> extends acc x"
  by (auto simp: extends_def)

lemma rx_caps_prefix:
  "rx_match r s caps cur = Some res \<Longrightarrow> take (length caps) res = caps"
proof (induction r s caps cur arbitrary: res rule: rx_match.induct)
  case (1 s caps cur)
  then show ?case by (simp split: if_splits)
next
  case (2 p r s caps cur)
  then show ?case by (cases s) (auto split: if_splits)
next
  case (3 p r s caps cur)
  then show ?case by (cases s) (auto split: if_splits option.splits)
next
  case (4 p r s caps cur)
  then show ?case by (cases s) (auto split: if_splits option.splits)
next
  case (5 p r s caps cur)
  then show ?case by (cases s) (auto split: if_splits)
next
  case (6 r s caps cur)
  then show ?case by simp
next
  case (7 r s caps cur)
  show ?case
  proof (cases cur)
    case None
    then show ?thesis using 7 by simp
  next
    case (Some acc)
    then have "rx_match r s (caps @ [acc]) None = Some res" using 7 by simp
    from "7.IH"(2)[OF Some this] have "take (length caps) (take (Suc (length caps)) res) = caps"
      by simp
    then show ?thesis by (simp add: min_def)
  qed
qed

lemma rx_capture_closed:
  assumes "rx_match (GroupClose # r) s caps (Some acc) = Some res"
  shows "res ! length caps = acc"
proof -
  from assms have "rx_match r s (caps @ [acc]) None = Some res" by simp
  from rx_caps_prefix[OF this] have t: "take (Suc (length caps)) res = caps @ [acc]" by simp
  then have "length caps < length res"
    by (metis length_append_singleton length_take lessI min_less_iff_conj)
  then have "take (Suc (length caps)) res = take (length caps) res @ [res ! length caps]"
    by (simp add: take_Suc_conv_app_nth)
  with t show ?thesis by simp
qed

lemma rx_capture_extends:
  "rx_match r s caps cur = Some res \<Longrightarrow> cur = Some acc \<Longrightarrow> closes r \<Longrightarrow>
   extends acc (res ! length caps)"
proof (induction r s caps cur arbitrary: res acc rule: rx_match.induct)
  case (1 s caps cur)
  then show ?case by simp
next
  case (2 p r s caps cur)
  then obtain c cs where s: "s = c # cs" "p c" "rx_match r cs caps (capture c cur) = Some res"
    by (cases s) (auto split: if_splits)
  have "extends (acc @ [c]) (res ! length caps)"
    using "2.IH"[OF s(1,2) s(3)] "2.prems"(2,3) by simp
  then show ?case by (rule extends_snoc)
next
  case (3 p r s caps cur)
  show ?case
  proof (cases "\<exists>c cs. s = c # cs \<and> p c \<and> rx_match r cs caps (capture c cur) \<noteq> None")
    case True
    then obtain c cs where s: "s = c # cs" "p c" and some: "rx_match r cs caps (capture c cur) \<noteq> None"
      by blast
    then have m: "rx_match r cs caps (capture c cur) = Some res"
      using "3.prems"(1) by (auto split: option.splits)
    have "extends (acc @ [c]) (res ! length caps)"
      using "3.IH"(1)[OF s m] "3.prems"(2,3) by simp
    then show ?thesis by (rule extends_snoc)
  next
    case False
    then have none: "(case s of [] \<Rightarrow> None
            | c # cs \<Rightarrow> if p c then rx_match r cs caps (capture c cur) else None) = None"
      by (cases s) auto
    then have m: "rx_match r s caps cur = Some res" using "3.prems"(1) by simp
    show ?thesis using "3.IH"(2)[OF none m "3.prems"(2)] "3.prems"(3) by simp
  qed
next
  case (4 p r s caps cur)
  show ?case
  proof (cases "\<exists>c cs. s = c # cs \<and> p c
                  \<and> rx_match (Star p # r) cs caps (capture c cur) \<noteq> None")
    case True
    then obtain c cs where s: "s = c # cs" "p c"
      and some: "rx_match (Star p # r) cs caps (capture c cur) \<noteq> None"
      by blast
    then have m: "rx_match (Star p # r) cs caps (capture c cur) = Some res"
      using "4.prems"(1) by (auto split: option.splits)
    have "extends (acc @ [c]) (res ! length caps)"
      using "4.IH"(1)[OF s m] "4.prems"(2,3) by simp
    then show ?thesis by (rule extends_snoc)
  next
    case False
    then have none: "(case s of [] \<Rightarrow> None
            | c # cs \<Rightarrow> if p c then rx_match (Star p # r) cs caps (capture c cur) else None)
          = None"
      by (cases s) auto
    then have m: "rx_match r s caps cur = Some res" using "4.prems"(1) by simp
    show ?thesis using "4.IH"(2)[OF none m "4.prems"(2)] "4.prems"(3) by simp
  qed
next
  case (5 p r s caps cur)
  then obtain c cs where s: "s = c # cs" "p c"
    "rx_match (Star p # r) cs caps (capture c cur) = Some res"
    by (cases s) (auto split: if_splits)
  have "extends (acc @ [c]) (res ! length caps)"
    using "5.IH"[OF s(1,2) s(3)] "5.prems"(2,3) by simp
  then show ?case by (rule extends_snoc)
next
  case (6 r s caps cur)
  then show ?case by simp
next
  case (7 r s caps cur)
  then have "rx_match (GroupClose # r) s caps (Some acc) = Some res" by simp
  from rx_capture_closed[OF this] show ?case by (simp add: extends_def)
qed

lemma digit_not_space: "is_digit c \<Longrightarrow> \<not> is_space c"
  by (auto simp: is_digit_def is_space_def)

lemma digit_not_sign: "is_digit c \<Longrightarrow> \<not> is_sign c"
  by (auto simp: is_digit_def is_sign_def)

lemma sign_not_space: "is_sign c \<Longrightarrow> \<not> is_space c"
  by (auto simp: is_sign_def is_space_def)

lemma parseFloat_number:
  assumes "starts_number n"
  shows "parseFloat (n @ t) \<noteq> NaN"
proof -
  from assms obtain c where c: "is_digit c" and n: "n = [c] \<or> (\<exists>g. is_sign g \<and> n = [g, c])"
    by (auto simp: starts_number_def)
  from n show ?thesis
  proof
    assume "n = [c]"
    then show ?thesis
      using c digit_not_space[OF c] digit_not_sign[OF c]
      by (simp add: parseFloat_def Let_def)
  next
    assume "\<exists>g. is_sign g \<and> n = [g, c]"
    then obtain g where "is_sign g" "n = [g, c]" by blast
    then show ?thesis
      using c sign_not_space[of g]
      by (simp add: parseFloat_def Let_def)
  qed
qed

lemma rx_skip_Star_open:
  assumes "rx_match (Star p # k) s caps (Some acc) = Some res"
  shows "\<exists>s' acc'. rx_match k s' caps (Some acc') = Some res"
proof -
  from rx_skip_Star[OF assms] obtain s' cur' where
    "rx_match k s' caps cur' = Some res" "cur' \<noteq> None" by auto
  then show ?thesis by (cases cur') auto
qed

lemma rx_skip_Opt_open:
  assumes "rx_match (Opt p # k) s caps (Some acc) = Some res"
  shows "\<exists>s' acc'. rx_match k s' caps (Some acc') = Some res"
proof -
  from rx_skip_Opt[OF assms] obtain s' cur' where
    "rx_match k s' caps cur' = Some res" "cur' \<noteq> None" by auto
  then show ?thesis by (cases cur') auto
qed

lemma rx_skip_Star_closed:
  assumes "rx_match (Star p # k) s caps None = Some res"
  shows "\<exists>s'. rx_match k s' caps None = Some res"
  using rx_skip_Star[OF assms] by auto

lemma rx_skip_One_closed:
  assumes "rx_match (One p # k) s caps None = Some res"
  shows "\<exists>s'. rx_match k s' caps None = Some res"
  using rx_skip_One[OF assms] by auto

lemma rx_close:
  "rx_match (GroupClose # k) s caps (Some acc) = Some res \<Longrightarrow>
   rx_match k s (caps @ [acc]) None = Some res"
  by simp

lemma rx_open:
  "rx_match (GroupOpen # k) s caps cur = Some res \<Longrightarrow> rx_match k s caps (Some []) = Some res"
  by simp

lemma match_coords_numbers:
  assumes "match text coords_rx = Some ms"
  shows "parseFloat (ms ! 1) \<noteq> NaN \<and> parseFloat (ms ! 2) \<noteq> NaN"
proof -
  define sep where "sep = (\<lambda>c. c = CHR '','' \<or> is_space c)"
  define k2 where "k2 = [Opt (is_char CHR ''.''), Star is_digit, GroupClose, Star is_space]"
  from assms obtain z where z: "rx_match coords_rx text [] None = Some z" and ms: "ms = text # z"
    by (auto simp: match_def)
  have rx: "coords_rx =
      Star is_space # GroupOpen # Opt is_sign # Plus is_digit # Opt (is_char CHR ''.'')
      # Star is_digit # GroupClose # One sep # Star is_space # GroupOpen # Opt is_sign
      # Plus is_digit # k2"
    by (simp add: coords_rx_def rx_signed_def sep_def k2_def)
  from z[unfolded rx] obtain s1 where
    "rx_match (GroupOpen # Opt is_sign # Plus is_digit # Opt (is_char CHR ''.'')
      # Star is_digit # GroupClose # One sep # Star is_space # GroupOpen # Opt is_sign
      # Plus is_digit # k2) s1 [] None = Some z"
    using rx_skip_Star_closed by blast
  from rx_number_start[OF rx_open[OF this]] obtain s2 n1 where n1: "starts_number n1"
    and m1: "rx_match (Star is_digit # Opt (is_char CHR ''.'')
      # Star is_digit # GroupClose # One sep # Star is_space # GroupOpen # Opt is_sign
      # Plus is_digit # k2) s2 [] (Some n1) = Some z"
    by blast
  have "closes (Star is_digit # Opt (is_char CHR ''.'')
      # Star is_digit # GroupClose # One sep # Star is_space # GroupOpen # Opt is_sign
      # Plus is_digit # k2)" by simp
  from rx_capture_extends[OF m1 refl this] obtain t1 where t1: "z ! 0 = n1 @ t1"
    by (auto simp: extends_def)
  from rx_skip_Star_open[OF m1] obtain s3 a3 where
    "rx_match (Opt (is_char CHR ''.'')
      # Star is_digit # GroupClose # One sep # Star is_space # GroupOpen # Opt is_sign
      # Plus is_digit # k2) s3 [] (Some a3) = Some z" by blast
  from rx_skip_Opt_open[OF this] obtain s4 a4 where
    "rx_match (Star is_digit # GroupClose # One sep # Star is_space # GroupOpen # Opt is_sign
      # Plus is_digit # k2) s4 [] (Some a4) = Some z" by blast
  from rx_skip_Star_open[OF this] obtain s5 a5 where
    "rx_match (GroupClose # One sep # Star is_space # GroupOpen # Opt is_sign
      # Plus is_digit # k2) s5 [] (Some a5) = Some z" by blast
  from rx_skip_One_closed[OF rx_close[OF this]] obtain s6 where
    "rx_match (Star is_space # GroupOpen # Opt is_sign # Plus is_digit # k2) s6 ([] @ [a5]) None
       = Some z" by blast
  from rx_skip_Star_closed[OF this] obtain s7 where
    "rx_match (GroupOpen # Opt is_sign # Plus is_digit # k2) s7 ([] @ [a5]) None = Some z"
    by blast
  from rx_number_start[OF rx_open[OF this]] obtain s8 n2 where n2: "starts_number n2"
    and m2: "rx_match (Star is_digit # k2) s8 ([] @ [a5]) (Some n2) = Some z" by blast
  have "closes (Star is_digit # k2)" by (simp add: k2_def)
  from rx_capture_extends[OF m2 refl this] obtain t2 where t2: "z ! 1 = n2 @ t2"
    by (auto simp: extends_def)
  from parseFloat_number[OF n1, of t1] parseFloat_number[OF n2, of t2] t1 t2 ms
  show ?thesis by simp
qed

lemma if_snoc: "(if c then xs @ [i] else xs) = xs @ (if c then [i] else [])"
  by simp

lemma map_if: "map f (if c then xs else ys) = (if c then map f xs else map f ys)"
  by simp

lemma coordinates_items_places:
  "map place_of (coordinates_items toString dcrs x y) =
     (if dcrs \<noteq> ''EPSG:4326'' then [(Some x, Some y, Some dcrs, Some [x, y, x, y])] else [])
     @ (if num_le (Num (- 180)) x \<and> num_le x (Num 180)
           \<and> num_le (Num (- 90)) y \<and> num_le y (Num 90)
        then [(Some x, Some y, Some ''EPSG:4326'', Some [x, y, x, y])]
        else [])
     @ (if num_le (Num (- 90)) x \<and> num_le x (Num 90)
           \<and> num_le (Num (- 180)) y \<and> num_le y (Num 180) \<and> num_strict_neq x y
        then [(Some y, Some x, Some ''EPSG:4326'', Some [y, x, y, x])]
        else [])"
  by (simp add: coordinates_items_def Let_def num_ge_def if_snoc map_if place_of_def new_item_def
        split del: if_split cong: if_cong)

lemma num_strict_neq_numbers: "x \<noteq> NaN \<Longrightarrow> y \<noteq> NaN \<Longrightarrow> num_strict_neq x y = (x \<noteq> y)"
  by (cases x; cases y) simp_all

lemma delivered_coordinates:
  "delivered_items (coordinatesSearch toString text rid opts) =
     (case match text coords_rx of
        None \<Rightarrow> []
      | Some ms \<Rightarrow>
          if length ms \<ge> 3 then
            coordinates_items toString (or_str (displaycrs opts) ''EPSG:4326'')
              (parseFloat (ms ! 1)) (parseFloat (ms ! 2))
          else [])"
  by (simp add: coordinatesSearch_def delivered_items_def Let_def)

lemma coordinatesSearch_general:
  assumes "match text coords_rx = Some ms"
    and "parseFloat (ms ! 1) = x" and "parseFloat (ms ! 2) = y"
  shows "map place_of (delivered_items (coordinatesSearch toString text rid opts)) =
           (let dcrs = or_str (displaycrs opts) ''EPSG:4326''
            in (if dcrs \<noteq> ''EPSG:4326''
                then [(Some x, Some y, Some dcrs, Some [x, y, x, y])]
                else [])
               @ (if num_le (Num (- 180)) x \<and> num_le x (Num 180)
                     \<and> num_le (Num (- 90)) y \<and> num_le y (Num 90)
                  then [(Some x, Some y, Some ''EPSG:4326'', Some [x, y, x, y])]
                  else [])
               @ (if num_le (Num (- 90)) x \<and> num_le x (Num 90)
                     \<and> num_le (Num (- 180)) y \<and> num_le y (Num 180) \<and> x \<noteq> y
                  then [(Some y, Some x, Some ''EPSG:4326'', Some [y, x, y, x])]
                  else []))"
proof -
  have n: "x \<noteq> NaN" "y \<noteq> NaN" using match_coords_numbers[OF assms(1)] assms(2,3) by simp_all
  have "delivered_items (coordinatesSearch toString text rid opts) =
      coordinates_items toString (or_str (displaycrs opts) ''EPSG:4326'') x y"
    using match_coords_length[OF assms(1)] assms by (simp add: delivered_coordinates)
  then show ?thesis
    by (simp only: coordinates_items_places Let_def num_strict_neq_numbers[OF n])
qed

lemma coordinates_items_are_places:
  "list_all is_place (coordinates_items toString dcrs x y)"
  by (simp add: coordinates_items_def Let_def is_place_def new_item_def)

lemma coordinatesSearch_places:
  "list_all is_place (delivered_items (coordinatesSearch toString text rid opts))"
  by (simp add: delivered_coordinates coordinates_items_are_places split: option.splits)

lemma match_46_5:
  "match ''46.5 6.6'' coords_rx = Some [''46.5 6.6'', ''46.5'', ''6.6'']"
  by (simp add: rx_eval)

lemma match_200:
  "match ''200 6.6'' coords_rx = Some [''200 6.6'', ''200'', ''6.6'']"
  by (simp add: rx_eval)

lemma match_5_5:
  "match ''5 5'' coords_rx = Some [''5 5'', ''5'', ''5'']"
  by (simp add: rx_eval)

lemma round64_6_6: "round64 (33 / 5) = Num (3715469692580659 / 562949953421312)"
proof -
  have "round_even (33 / 5 / 2 powi (2 - 52)) = 7430939385161318"
    by (rule round_even_near) simp_all
  then show ?thesis by (subst round64_bracket[of 2]) (simp_all add: Let_def)
qed

lemma round64_46_5: "round64 (93 / 2) = Num (93 / 2)"
  by (rule round64_exact[of _ 93 "- 1"]) simp_all

lemma round64_200: "round64 200 = Num 200"
  using round64_of_int[of 200] by simp

lemma round64_5: "round64 5 = Num 5"
  using round64_of_int[of 5] by simp

lemma parseFloat_examples:
  "parseFloat ''46.5'' = Num (93 / 2)"
  "parseFloat ''6.6'' = Num (3715469692580659 / 562949953421312)"
  "parseFloat ''200'' = Num 200"
  "parseFloat ''5'' = Num 5"
  by (simp_all add: parseFloat_eval round64_6_6 round64_46_5 round64_200 round64_5)

lemma coordinatesSearch_46_5:
  assumes "d \<noteq> []" "d \<noteq> ''EPSG:4326''"
  shows "map place_of (delivered_items
           (coordinatesSearch toString ''46.5 6.6'' rid \<lparr>displaycrs = Some d\<rparr>)) =
         (let a = Num (93 / 2); b = Num (3715469692580659 / 562949953421312)
          in [(Some a, Some b, Some d, Some [a, b, a, b]),
              (Some a, Some b, Some ''EPSG:4326'', Some [a, b, a, b]),
              (Some b, Some a, Some ''EPSG:4326'', Some [b, a, b, a])])"
proof -
  have x: "parseFloat ([''46.5 6.6'', ''46.5'', ''6.6''] ! 1) = Num (93 / 2)"
    and y: "parseFloat ([''46.5 6.6'', ''46.5'', ''6.6''] ! 2)
              = Num (3715469692580659 / 562949953421312)"
    by (simp_all add: parseFloat_examples)
  show ?thesis
    using coordinatesSearch_general[OF match_46_5 x y, of toString rid "\<lparr>displaycrs = Some d\<rparr>"] assms
    by (simp add: or_str_def Let_def)
qed

lemma coordinatesSearch_200:
  assumes "d \<noteq> []" "d \<noteq> ''EPSG:4326''"
  shows "map place_of (delivered_items
           (coordinatesSearch toString ''200 6.6'' rid \<lparr>displaycrs = Some d\<rparr>)) =
         (let a = Num 200; b = Num (3715469692580659 / 562949953421312)
          in [(Some a, Some b, Some d, Some [a, b, a, b])])"
proof -
  have x: "parseFloat ([''200 6.6'', ''200'', ''6.6''] ! 1) = Num 200"
    and y: "parseFloat ([''200 6.6'', ''200'', ''6.6''] ! 2)
              = Num (3715469692580659 / 562949953421312)"
    by (simp_all add: parseFloat_examples)
  show ?thesis
    using coordinatesSearch_general[OF match_200 x y, of toString rid "\<lparr>displaycrs = Some d\<rparr>"] assms
    by (simp add: or_str_def Let_def)
qed

lemma coordinatesSearch_5_5:
  assumes "d \<noteq> []" "d \<noteq> ''EPSG:4326''"
  shows "map place_of (delivered_items
           (coordinatesSearch toString ''5 5'' rid \<lparr>displaycrs = Some d\<rparr>)) =
         [(Some (Num 5), Some (Num 5), Some d, Some [Num 5, Num 5, Num 5, Num 5]),
          (Some (Num 5), Some (Num 5), Some ''EPSG:4326'', Some [Num 5, Num 5, Num 5, Num 5])]"
proof -
  have x: "parseFloat ([''5 5'', ''5'', ''5''] ! 1) = Num 5"
    and y: "parseFloat ([''5 5'', ''5'', ''5''] ! 2) = Num 5"
    by (simp_all add: parseFloat_examples)
  show ?thesis
    using coordinatesSearch_general[OF match_5_5 x y, of toString rid "\<lparr>displaycrs = Some d\<rparr>"] assms
    by (simp add: or_str_def Let_def)
qed

text \<open>
  C3. When the text matches the two-number pattern, \<open>parseFloat\<close> reads its two captured
  strings as numbers \<open>x\<close> and \<open>y\<close> (values of binary64, never NaN), and \<open>coordinatesSearch\<close>
  delivers exactly these items, in this order: the pair in the display reference system if
  and only if that system is not EPSG:4326; the pair as longitude and latitude in
  EPSG:4326 if and only if \<open>-180 <= x <= 180\<close> and \<open>-90 <= y <= 90\<close>; the swapped pair in
  EPSG:4326 if and only if \<open>-90 <= x <= 90\<close>, \<open>-180 <= y <= 180\<close> and \<open>x\<close> differs from
  \<open>y\<close>. The comparisons are those of the parsed numbers. Each item is a place with its own
  reference system and the bounding box of area zero at its point. With a display
  reference system \<open>d\<close> other than EPSG:4326, the text \<open>46.5 6.6\<close> gives three items,
  \<open>200 6.6\<close> the item in \<open>d\<close> only, and \<open>5 5\<close> two items; \<open>6.6\<close> is read as the value of
  binary64 nearest to it.
\<close>

theorem coordinatesSearch_candidates:
  "(\<forall>ms. match query coords_rx = Some ms \<longrightarrow>
      (\<exists>x y. parseFloat (ms ! 1) = x \<and> parseFloat (ms ! 2) = y \<and> x \<noteq> NaN \<and> y \<noteq> NaN
         \<and> map place_of (delivered_items (coordinatesSearch toString query rid opts)) =
           (let dcrs = or_str (displaycrs opts) ''EPSG:4326''
            in (if dcrs \<noteq> ''EPSG:4326''
                then [(Some x, Some y, Some dcrs, Some [x, y, x, y])]
                else [])
               @ (if num_le (Num (- 180)) x \<and> num_le x (Num 180)
                     \<and> num_le (Num (- 90)) y \<and> num_le y (Num 90)
                  then [(Some x, Some y, Some ''EPSG:4326'', Some [x, y, x, y])]
                  else [])
               @ (if num_le (Num (- 90)) x \<and> num_le x (Num 90)
                     \<and> num_le (Num (- 180)) y \<and> num_le y (Num 180) \<and> x \<noteq> y
                  then [(Some y, Some x, Some ''EPSG:4326'', Some [y, x, y, x])]
                  else []))))
   \<and> list_all is_place (delivered_items (coordinatesSearch toString query rid opts))
   \<and> (d \<noteq> [] \<and> d \<noteq> ''EPSG:4326'' \<longrightarrow>
        map place_of (delivered_items
          (coordinatesSearch toString ''46.5 6.6'' rid \<lparr>displaycrs = Some d\<rparr>)) =
        (let a = Num (93 / 2); b = Num (3715469692580659 / 562949953421312)
         in [(Some a, Some b, Some d, Some [a, b, a, b]),
             (Some a, Some b, Some ''EPSG:4326'', Some [a, b, a, b]),
             (Some b, Some a, Some ''EPSG:4326'', Some [b, a, b, a])])
        \<and> map place_of (delivered_items
             (coordinatesSearch toString ''200 6.6'' rid \<lparr>displaycrs = Some d\<rparr>)) =
           (let a = Num 200; b = Num (3715469692580659 / 562949953421312)
            in [(Some a, Some b, Some d, Some [a, b, a, b])])
        \<and> map place_of (delivered_items
             (coordinatesSearch toString ''5 5'' rid \<lparr>displaycrs = Some d\<rparr>)) =
           [(Some (Num 5), Some (Num 5), Some d, Some [Num 5, Num 5, Num 5, Num 5]),
            (Some (Num 5), Some (Num 5), Some ''EPSG:4326'',
             Some [Num 5, Num 5, Num 5, Num 5])])"
proof (intro conjI allI impI)
  fix ms
  assume m: "match query coords_rx = Some ms"
  from coordinatesSearch_general[OF m refl refl, of toString rid opts]
    match_coords_numbers[OF m]
  show "\<exists>x y. parseFloat (ms ! 1) = x \<and> parseFloat (ms ! 2) = y \<and> x \<noteq> NaN \<and> y \<noteq> NaN
         \<and> map place_of (delivered_items (coordinatesSearch toString query rid opts)) =
           (let dcrs = or_str (displaycrs opts) ''EPSG:4326''
            in (if dcrs \<noteq> ''EPSG:4326''
                then [(Some x, Some y, Some dcrs, Some [x, y, x, y])]
                else [])
               @ (if num_le (Num (- 180)) x \<and> num_le x (Num 180)
                     \<and> num_le (Num (- 90)) y \<and> num_le y (Num 90)
                  then [(Some x, Some y, Some ''EPSG:4326'', Some [x, y, x, y])]
                  else [])
               @ (if num_le (Num (- 90)) x \<and> num_le x (Num 90)
                     \<and> num_le (Num (- 180)) y \<and> num_le y (Num 180) \<and> x \<noteq> y
                  then [(Some y, Some x, Some ''EPSG:4326'', Some [y, x, y, x])]
                  else []))"
    by blast
next
  show "list_all is_place (delivered_items (coordinatesSearch toString query rid opts))"
    by (rule coordinatesSearch_places)
qed (simp_all add: coordinatesSearch_46_5 coordinatesSearch_200 coordinatesSearch_5_5)

theorem coordinatesSearch_candidates_witness:
  "match ''46.5 6.6'' coords_rx = Some [''46.5 6.6'', ''46.5'', ''6.6'']
   \<and> ''EPSG:2056'' \<noteq> [] \<and> ''EPSG:2056'' \<noteq> ''EPSG:4326''
   \<and> parseFloat ''46.5'' = Num (93 / 2)
   \<and> parseFloat ''6.6'' = Num (3715469692580659 / 562949953421312)
   \<and> map place_of (delivered_items
        (coordinatesSearch (\<lambda>n. []) ''46.5 6.6'' 1 \<lparr>displaycrs = Some ''EPSG:2056''\<rparr>)) =
      (let a = Num (93 / 2); b = Num (3715469692580659 / 562949953421312)
       in [(Some a, Some b, Some ''EPSG:2056'', Some [a, b, a, b]),
           (Some a, Some b, Some ''EPSG:4326'', Some [a, b, a, b]),
           (Some b, Some a, Some ''EPSG:4326'', Some [b, a, b, a])])
   \<and> map place_of (delivered_items
        (coordinatesSearch (\<lambda>n. []) ''5 5'' 1 \<lparr>displaycrs = Some ''EPSG:2056''\<rparr>)) =
      [(Some (Num 5), Some (Num 5), Some ''EPSG:2056'', Some [Num 5, Num 5, Num 5, Num 5]),
       (Some (Num 5), Some (Num 5), Some ''EPSG:4326'', Some [Num 5, Num 5, Num 5, Num 5])]"
  using coordinatesSearch_candidates[where query = "''46.5 6.6''"
      and opts = "\<lparr>displaycrs = Some ''EPSG:2056''\<rparr>" and toString = "\<lambda>n. []" and rid = 1
      and d = "''EPSG:2056''"] match_46_5
  by (simp add: parseFloat_examples or_str_def Let_def)

section \<open>The provider of an item\<close>

lemma createLayerSearchResult_items:
  assumes "\<And>sl. P ((new_item (JStr (toLowerCase (sl_name sl))))
                 \<lparr>item_type := Some THEMELAYER, item_text := Some (sl_name sl),
                  item_layer := Some \<lparr>layer_sublayers = [sl]\<rparr>\<rparr>)"
  shows "list_all P (group_items (createLayerSearchResult arg t))"
  by (cases arg) (auto simp: createLayerSearchResult_def Let_def list_all_iff assms)

lemma layer_items_no_provider:
  "list_all (\<lambda>it. item_provider it = None) (group_items (createLayerSearchResult arg t))"
  by (rule createLayerSearchResult_items) (simp add: new_item_def)

lemma layerSearch_no_provider:
  "list_all (\<lambda>it. item_provider it = None) (delivered_items (layerSearch text rid opts))"
  unfolding layerSearch_def Let_def delivered_items_def
  by (simp add: layer_items_no_provider)

text \<open>The items of the coordinates provider do not name their provider.\<close>

theorem coordinates_items_without_provider:
  "\<not> list_all (\<lambda>it. item_provider it = Some ''coordinates'')
        (delivered_items (coordinatesSearch (\<lambda>n. []) ''5 5'' 1 \<lparr>displaycrs = None\<rparr>))"
  by (simp add: delivered_coordinates match_5_5 parseFloat_examples coordinates_items_def
        or_str_def num_ge_def new_item_def Let_def)

text \<open>
  C4, as the code has it. Every item delivered by the normalizations of geoadmin, uster,
  wolfsburg, glarus and nominatim has the field \<open>provider\<close> with the identifier of its
  provider (for glarus also the item that asks for more results). The items of
  \<open>coordinatesSearch\<close> and of \<open>layerSearch\<close> have no field \<open>provider\<close>. The header of the file
  requires the field only where \<open>getResultGeometry\<close> is to be called.
\<close>

theorem provider_of_items:
  "(\<forall>a. geoAdminLocationSearchResults reprojectBbox gobj rid = Inr a \<longrightarrow>
        list_all (\<lambda>it. item_provider it = Some ''geoadmin'') (delivered_items [a]))
   \<and> list_all (\<lambda>it. item_provider it = Some ''uster'')
        (delivered_items [usterSearchResults uobj rid])
   \<and> list_all (\<lambda>it. item_provider it = Some ''wolfsburg'')
        (delivered_items [wolfsburgSearchResults wobj rid])
   \<and> list_all (\<lambda>it. item_provider it = Some ''glarus'')
        (delivered_items [glarusSearchResults globj rid limit_arg])
   \<and> (\<forall>a. nominatimSearchResults toUpperCase nobj rid = Inr a \<longrightarrow>
        list_all (\<lambda>it. item_provider it = Some ''nominatim'') (delivered_items [a]))
   \<and> list_all (\<lambda>it. item_provider it = None)
        (delivered_items (coordinatesSearch toString query rid opts))
   \<and> list_all (\<lambda>it. item_provider it = None)
        (delivered_items (layerSearch query rid opts))"
proof (intro conjI allI impI)
  fix a
  assume "geoAdminLocationSearchResults reprojectBbox gobj rid = Inr a"
  then show "list_all (\<lambda>it. item_provider it = Some ''geoadmin'') (delivered_items [a])"
    by (rule geoadmin_items) (simp add: geoadmin_item_def)
next
  show "list_all (\<lambda>it. item_provider it = Some ''uster'')
        (delivered_items [usterSearchResults uobj rid])"
    by (rule uster_items) (simp add: uster_item_def)
next
  show "list_all (\<lambda>it. item_provider it = Some ''wolfsburg'')
        (delivered_items [wolfsburgSearchResults wobj rid])"
    by (rule wolfsburg_items) (simp add: wolfsburg_item_def)
next
  show "list_all (\<lambda>it. item_provider it = Some ''glarus'')
        (delivered_items [glarusSearchResults globj rid limit_arg])"
    by (rule glarus_items) (simp_all add: glarus_item_def glarus_more_item_def)
next
  fix a
  assume "nominatimSearchResults toUpperCase nobj rid = Inr a"
  then show "list_all (\<lambda>it. item_provider it = Some ''nominatim'') (delivered_items [a])"
    by (rule nominatim_items) (simp add: nominatim_item_def Let_def)
next
  show "list_all (\<lambda>it. item_provider it = None)
        (delivered_items (coordinatesSearch toString query rid opts))"
    by (simp add: delivered_coordinates coordinates_items_def new_item_def Let_def
          split: option.splits)
next
  show "list_all (\<lambda>it. item_provider it = None) (delivered_items (layerSearch query rid opts))"
    by (rule layerSearch_no_provider)
qed

theorem provider_of_items_witness:
  "(\<exists>a. geoAdminLocationSearchResults (\<lambda>b f t. b) \<lparr>ga_results = Some [example_geoadmin_entry]\<rparr> 1
          = Inr a
        \<and> delivered_items [a] \<noteq> []
        \<and> list_all (\<lambda>it. item_provider it = Some ''geoadmin'') (delivered_items [a]))
   \<and> (\<exists>a. nominatimSearchResults id (Some [example_nominatim_entry]) 1 = Inr a
        \<and> delivered_items [a] \<noteq> []
        \<and> list_all (\<lambda>it. item_provider it = Some ''nominatim'') (delivered_items [a]))"
  using provider_of_items[where reprojectBbox = "\<lambda>b f t. b"
      and gobj = "\<lparr>ga_results = Some [example_geoadmin_entry]\<rparr>" and rid = 1
      and toUpperCase = id and nobj = "Some [example_nominatim_entry]"
      and uobj = "\<lparr>us_results = None\<rparr>" and wobj = "\<lparr>wb_results = None\<rparr>"
      and globj = "\<lparr>gl_results = None\<rparr>" and limit_arg = None
      and toString = "\<lambda>n. []" and query = "[]" and opts = "\<lparr>displaycrs = None\<rparr>"]
  by (simp add: geoAdminLocationSearchResults_def geoadmin_entry_def parseItemBBox_def
        example_geoadmin_entry_def Object_prototype_keys_def categoryMap_def or_list_def
        or_str_def Object_values_def is_array_index_def is_digit_def geoadmin_item_def
        nominatimSearchResults_def nominatim_entry_def nominatim_new_group_def
        example_nominatim_entry_def push_item_def delivered_items_def Let_def)


section \<open>The glarus provider: requests for more results\<close>

lemma glarus_group_step:
  "\<exists>g k'. glarus_group limit grp (rs, k) = (rs @ [g], k')
     \<and> group_id g = gl_category grp
     \<and> group_items g = map (glarus_item grp) (gl_features grp)
          @ (if 0 \<le> limit \<and> limit < int (length (gl_features grp))
             then [glarus_more_item k grp] else [])"
  by (simp add: glarus_group_def Let_def)

lemma glarus_fold:
  "\<exists>new k'. fold (glarus_group limit) gs (rs, k) = (rs @ new, k')
     \<and> list_all2 (\<lambda>grp g. group_id g = gl_category grp
          \<and> (\<exists>j. group_items g = map (glarus_item grp) (gl_features grp)
                 @ (if 0 \<le> limit \<and> limit < int (length (gl_features grp))
                    then [glarus_more_item j grp] else []))) gs new"
proof (induction gs arbitrary: rs k)
  case Nil
  then show ?case by simp
next
  case (Cons grp gs)
  obtain g k1 where step: "glarus_group limit grp (rs, k) = (rs @ [g], k1)"
    and gid: "group_id g = gl_category grp"
    and gitems: "group_items g = map (glarus_item grp) (gl_features grp)
          @ (if 0 \<le> limit \<and> limit < int (length (gl_features grp))
             then [glarus_more_item k grp] else [])"
    using glarus_group_step[of limit grp rs k] by blast
  obtain new k2 where rest: "fold (glarus_group limit) gs (rs @ [g], k1) = ((rs @ [g]) @ new, k2)"
    and rel: "list_all2 (\<lambda>grp g. group_id g = gl_category grp
          \<and> (\<exists>j. group_items g = map (glarus_item grp) (gl_features grp)
                 @ (if 0 \<le> limit \<and> limit < int (length (gl_features grp))
                    then [glarus_more_item j grp] else []))) gs new"
    using Cons.IH[of "rs @ [g]" k1] by blast
  have "fold (glarus_group limit) (grp # gs) (rs, k) = (rs @ (g # new), k2)"
    using step rest by simp
  moreover have "list_all2 (\<lambda>grp g. group_id g = gl_category grp
          \<and> (\<exists>j. group_items g = map (glarus_item grp) (gl_features grp)
                 @ (if 0 \<le> limit \<and> limit < int (length (gl_features grp))
                    then [glarus_more_item j grp] else []))) (grp # gs) (g # new)"
    using gid gitems rel by auto
  ultimately show ?case by blast
qed

lemma glarus_groups:
  "list_all2 (\<lambda>grp g. group_id g = gl_category grp
          \<and> (\<exists>j. group_items g = map (glarus_item grp) (gl_features grp)
                 @ (if 0 \<le> limit \<and> limit < int (length (gl_features grp))
                    then [glarus_more_item j grp] else [])))
     (or_list (gl_results obj))
     (delivered_groups (glarusSearchResults obj rid (Some limit)))"
proof -
  obtain new k' where f: "fold (glarus_group limit) (or_list (gl_results obj)) ([], 0) = ([] @ new, k')"
    and rel: "list_all2 (\<lambda>grp g. group_id g = gl_category grp
          \<and> (\<exists>j. group_items g = map (glarus_item grp) (gl_features grp)
                 @ (if 0 \<le> limit \<and> limit < int (length (gl_features grp))
                    then [glarus_more_item j grp] else []))) (or_list (gl_results obj)) new"
    using glarus_fold[of limit "or_list (gl_results obj)" "[]" 0] by blast
  from f have "delivered_groups (glarusSearchResults obj rid (Some limit)) = new"
    by (simp add: glarusSearchResults_def)
  then show ?thesis using rel by (simp only:)
qed

lemma glarus_groups_default:
  "list_all2 (\<lambda>grp g. group_id g = gl_category grp
          \<and> group_items g = map (glarus_item grp) (gl_features grp))
     (or_list (gl_results obj))
     (delivered_groups (glarusSearchResults obj rid None))"
proof -
  obtain new k' where f: "fold (glarus_group (- 1)) (or_list (gl_results obj)) ([], 0) = ([] @ new, k')"
    and rel: "list_all2 (\<lambda>grp g. group_id g = gl_category grp
          \<and> (\<exists>j. group_items g = map (glarus_item grp) (gl_features grp)
                 @ (if 0 \<le> (- 1 :: int) \<and> - 1 < int (length (gl_features grp))
                    then [glarus_more_item j grp] else []))) (or_list (gl_results obj)) new"
    using glarus_fold[of "- 1" "or_list (gl_results obj)" "[]" 0] by blast
  have "list_all2 (\<lambda>grp g. group_id g = gl_category grp
          \<and> group_items g = map (glarus_item grp) (gl_features grp)) (or_list (gl_results obj)) new"
    using rel by (rule list_all2_mono) simp
  then show ?thesis using f by (simp add: glarusSearchResults_def)
qed

lemma last_glarus_item_no_marker:
  "fs \<noteq> [] \<Longrightarrow> \<not> is_more_marker c (last (map (glarus_item grp) fs))"
  by (simp add: last_map is_more_marker_def glarus_item_def new_item_def)

lemma ends_with_more_items:
  "ends_with_more (gl_category grp) (map (glarus_item grp) fs @ [glarus_more_item j grp])"
  "\<not> ends_with_more (gl_category grp) (map (glarus_item grp) fs)"
  by (auto simp: ends_with_more_def last_glarus_item_no_marker)
     (simp add: is_more_marker_def glarus_more_item_def new_item_def)

lemma list_all2_items:
  assumes "list_all2 R xs gs" "\<And>x g. R x g \<Longrightarrow> list_all P (group_items g)"
  shows "list_all P (concat (map group_items gs))"
  using assms(1) by (induction rule: list_all2_induct) (auto simp: assms(2))

text \<open>
  C5. For a limit that is not negative, the items of a delivered group end with the item
  that asks for more results (\<open>more: true\<close>, provider \<open>glarus\<close>, the category of the group)
  if and only if the group of the payload has more features than the limit. For a
  negative limit no delivered item asks for more results.
\<close>

theorem glarus_more_marker:
  "(0 \<le> limit \<longrightarrow>
      list_all2 (\<lambda>grp g. ends_with_more (gl_category grp) (group_items g)
                          = (limit < int (length (gl_features grp))))
        (or_list (gl_results obj))
        (delivered_groups (glarusSearchResults obj rid (Some limit))))
   \<and> (limit < 0 \<longrightarrow>
        list_all (\<lambda>it. item_more it = None)
          (delivered_items [glarusSearchResults obj rid (Some limit)]))"
proof (intro conjI impI)
  assume nonneg: "0 \<le> limit"
  show "list_all2 (\<lambda>grp g. ends_with_more (gl_category grp) (group_items g)
                          = (limit < int (length (gl_features grp))))
        (or_list (gl_results obj))
        (delivered_groups (glarusSearchResults obj rid (Some limit)))"
    using glarus_groups[of limit obj rid]
  proof (rule list_all2_mono)
    fix grp g
    assume "group_id g = gl_category grp
          \<and> (\<exists>j. group_items g = map (glarus_item grp) (gl_features grp)
                 @ (if 0 \<le> limit \<and> limit < int (length (gl_features grp))
                    then [glarus_more_item j grp] else []))"
    then obtain j where items: "group_items g = map (glarus_item grp) (gl_features grp)
                 @ (if 0 \<le> limit \<and> limit < int (length (gl_features grp))
                    then [glarus_more_item j grp] else [])"
      by blast
    show "ends_with_more (gl_category grp) (group_items g)
            = (limit < int (length (gl_features grp)))"
    proof (cases "limit < int (length (gl_features grp))")
      case True
      then show ?thesis using items nonneg by (simp add: ends_with_more_items(1))
    next
      case False
      then show ?thesis using items by (simp add: ends_with_more_items(2))
    qed
  qed
next
  assume neg: "limit < 0"
  have "list_all (\<lambda>it. item_more it = None)
          (concat (map group_items (delivered_groups (glarusSearchResults obj rid (Some limit)))))"
    using glarus_groups[of limit obj rid]
    by (rule list_all2_items)
       (use neg in \<open>auto simp: list_all_iff glarus_item_def new_item_def\<close>)
  then show "list_all (\<lambda>it. item_more it = None)
          (delivered_items [glarusSearchResults obj rid (Some limit)])"
    by (simp add: delivered_items_def)
qed

theorem glarus_more_marker_witness:
  "(0::int) \<le> 1
   \<and> list_all2 (\<lambda>grp g. ends_with_more (gl_category grp) (group_items g)
                          = ((1::int) < int (length (gl_features grp))))
        [\<lparr>gl_category = ''roads'', gl_group_name = ''Roads'',
          gl_features = [\<lparr>gl_id = JNum (Num 1), gl_name = ''a'', gl_bbox = [Num 0, Num 0, Num 2, Num 2]\<rparr>,
                         \<lparr>gl_id = JNum (Num 2), gl_name = ''b'', gl_bbox = [Num 0, Num 0, Num 2, Num 2]\<rparr>]\<rparr>,
         \<lparr>gl_category = ''lakes'', gl_group_name = ''Lakes'',
          gl_features = [\<lparr>gl_id = JNum (Num 3), gl_name = ''c'', gl_bbox = [Num 0, Num 0, Num 2, Num 2]\<rparr>]\<rparr>]
        (delivered_groups (glarusSearchResults
           \<lparr>gl_results = Some
             [\<lparr>gl_category = ''roads'', gl_group_name = ''Roads'',
               gl_features = [\<lparr>gl_id = JNum (Num 1), gl_name = ''a'', gl_bbox = [Num 0, Num 0, Num 2, Num 2]\<rparr>,
                              \<lparr>gl_id = JNum (Num 2), gl_name = ''b'', gl_bbox = [Num 0, Num 0, Num 2, Num 2]\<rparr>]\<rparr>,
              \<lparr>gl_category = ''lakes'', gl_group_name = ''Lakes'',
               gl_features = [\<lparr>gl_id = JNum (Num 3), gl_name = ''c'', gl_bbox = [Num 0, Num 0, Num 2, Num 2]\<rparr>]\<rparr>]\<rparr>
           7 (Some 1)))
   \<and> (- 1 :: int) < 0
   \<and> list_all (\<lambda>it. item_more it = None)
        (delivered_items [glarusSearchResults
           \<lparr>gl_results = Some
             [\<lparr>gl_category = ''roads'', gl_group_name = ''Roads'',
               gl_features = [\<lparr>gl_id = JNum (Num 1), gl_name = ''a'', gl_bbox = [Num 0, Num 0, Num 2, Num 2]\<rparr>,
                              \<lparr>gl_id = JNum (Num 2), gl_name = ''b'', gl_bbox = [Num 0, Num 0, Num 2, Num 2]\<rparr>]\<rparr>]\<rparr>
           7 (Some (- 1))])"
  using glarus_more_marker[of 1 "\<lparr>gl_results = Some
             [\<lparr>gl_category = ''roads'', gl_group_name = ''Roads'',
               gl_features = [\<lparr>gl_id = JNum (Num 1), gl_name = ''a'', gl_bbox = [Num 0, Num 0, Num 2, Num 2]\<rparr>,
                              \<lparr>gl_id = JNum (Num 2), gl_name = ''b'', gl_bbox = [Num 0, Num 0, Num 2, Num 2]\<rparr>]\<rparr>,
              \<lparr>gl_category = ''lakes'', gl_group_name = ''Lakes'',
               gl_features = [\<lparr>gl_id = JNum (Num 3), gl_name = ''c'', gl_bbox = [Num 0, Num 0, Num 2, Num 2]\<rparr>]\<rparr>]\<rparr>" 7]
    glarus_more_marker[of "- 1" "\<lparr>gl_results = Some
             [\<lparr>gl_category = ''roads'', gl_group_name = ''Roads'',
               gl_features = [\<lparr>gl_id = JNum (Num 1), gl_name = ''a'', gl_bbox = [Num 0, Num 0, Num 2, Num 2]\<rparr>,
                              \<lparr>gl_id = JNum (Num 2), gl_name = ''b'', gl_bbox = [Num 0, Num 0, Num 2, Num 2]\<rparr>]\<rparr>]\<rparr>" 7]
  by (simp add: or_list_def)


text \<open>
  C6. \<open>glarusMoreResults\<close> dispatches the result of \<open>glarusSearchResults\<close> called without a
  limit. Its groups are those of the payload, in order; each holds one item for each
  feature of its group of the payload, in order, and no delivered item asks for more
  results, whatever the reply.
\<close>

theorem glarusMoreResults_complete:
  "fst (glarusMoreResults moreItem text rid (Inr obj)) = [glarusSearchResults obj rid None]
   \<and> list_all2 (\<lambda>grp g. group_id g = gl_category grp
                  \<and> length (group_items g) = length (gl_features grp)
                  \<and> map item_id (group_items g) = map gl_id (gl_features grp)
                  \<and> list_all (\<lambda>it. item_more it = None) (group_items g))
        (or_list (gl_results obj))
        (delivered_groups (glarusSearchResults obj rid None))
   \<and> list_all (\<lambda>it. item_more it = None)
        (delivered_items (fst (glarusMoreResults moreItem text rid reply)))"
proof (intro conjI)
  show "fst (glarusMoreResults moreItem text rid (Inr obj)) = [glarusSearchResults obj rid None]"
    by (simp add: glarusMoreResults_def promise_defs)
  show "list_all2 (\<lambda>grp g. group_id g = gl_category grp
                  \<and> length (group_items g) = length (gl_features grp)
                  \<and> map item_id (group_items g) = map gl_id (gl_features grp)
                  \<and> list_all (\<lambda>it. item_more it = None) (group_items g))
        (or_list (gl_results obj))
        (delivered_groups (glarusSearchResults obj rid None))"
    using glarus_groups_default[of obj rid]
    by (rule list_all2_mono) (auto simp: list_all_iff glarus_item_def new_item_def)
  have items: "list_all (\<lambda>it. item_more it = None)
        (concat (map group_items (delivered_groups (glarusSearchResults o' rid None))))" for o'
    using glarus_groups_default[of o' rid]
    by (rule list_all2_items) (auto simp: list_all_iff glarus_item_def new_item_def)
  show "list_all (\<lambda>it. item_more it = None)
        (delivered_items (fst (glarusMoreResults moreItem text rid reply)))"
  proof (cases reply)
    case (Inl e)
    then show ?thesis
      using items[of "\<lparr>gl_results = None\<rparr>"]
      by (simp add: glarusMoreResults_def promise_defs delivered_items_def)
  next
    case (Inr o')
    then show ?thesis
      using items[of o']
      by (simp add: glarusMoreResults_def promise_defs delivered_items_def)
  qed
qed


section \<open>Coordinates and bounding box\<close>





text \<open>The strings of a box of nominatim are read by \<open>parseFloat\<close>, which gives values of
  binary64.\<close>

lemma parseFloat_is_double: "is_double (parseFloat s)"
proof -
  have "is_double (round64 q)" for q
    using round64_idem[of q] by (cases "round64 q") simp_all
  then show ?thesis by (simp add: parseFloat_def Let_def)
qed










section \<open>Geometry of a result\<close>

text \<open>The callback is not called once for each outcome: after a failed request
  \<open>usterResultGeometry\<close> does not call it.\<close>

theorem geometry_failure_counterexample:
  "\<not> (length (fst (usterResultGeometry (new_item (JStr ''usterresult0'')) (Inl AxiosError))) = 1)"
  by (simp add: usterResultGeometry_def promise_defs)

text \<open>
  C8, as the code has it. After a successful request each of \<open>usterResultGeometry\<close>,
  \<open>wolfsburgResultGeometry\<close> and \<open>glarusResultGeometry\<close> calls its callback exactly once, with
  the item, the data of the response and the reference system of its provider. After a
  failed request the callback is not called, and the promise stays rejected: the chain
  has no \<open>catch\<close> handler, and the caller gets no signal.
\<close>

theorem geometry_callback:
  "usterResultGeometry resultItem (Inr geometry) = ([(resultItem, geometry, ''EPSG:21781'')], Inr ())
   \<and> wolfsburgResultGeometry resultItem (Inr geometry) = ([(resultItem, geometry, ''EPSG:25832'')], Inr ())
   \<and> glarusResultGeometry resultItem (Inr geometry) = ([(resultItem, geometry, ''EPSG:2056'')], Inr ())
   \<and> usterResultGeometry resultItem (Inl e) = ([], Inl e)
   \<and> wolfsburgResultGeometry resultItem (Inl e) = ([], Inl e)
   \<and> glarusResultGeometry resultItem (Inl e) = ([], Inl e)"
  by (simp add: usterResultGeometry_def wolfsburgResultGeometry_def glarusResultGeometry_def
        promise_defs)


section \<open>The request identifier\<close>

lemma geoadmin_reqId:
  "geoAdminLocationSearchResults reprojectBbox obj rid = Inr a \<Longrightarrow> action_reqId a = rid"
  by (auto simp: geoAdminLocationSearchResults_def split: sum.splits)

lemma nominatim_reqId:
  "nominatimSearchResults toUpperCase obj rid = Inr a \<Longrightarrow> action_reqId a = rid"
  by (auto simp: nominatimSearchResults_def split: sum.splits)

lemma layerSearch_reqId: "list_all (\<lambda>a. action_reqId a = rid) (layerSearch text rid opts)"
  unfolding layerSearch_def Let_def by simp

text \<open>
  C9. Every action that a provider function dispatches carries the request identifier the
  function was called with. The provider functions are the \<open>onSearch\<close> and
  \<open>getMoreResults\<close> members of \<open>SearchProviders\<close> and the \<open>onSearch\<close> member that
  \<open>searchProviderFactory\<close> makes; the statement holds for every reply of the server.
\<close>

theorem reqId_passed_through:
  "list_all (\<lambda>a. action_reqId a = rid) (coordinatesSearch toString text rid opts)
   \<and> list_all (\<lambda>a. action_reqId a = rid) (fst (geoAdminLocationSearch reprojectBbox text rid opts r1))
   \<and> list_all (\<lambda>a. action_reqId a = rid) (fst (usterSearch text rid opts r2))
   \<and> list_all (\<lambda>a. action_reqId a = rid) (fst (wolfsburgSearch text rid opts r3))
   \<and> list_all (\<lambda>a. action_reqId a = rid) (fst (glarusSearch text rid opts r4))
   \<and> list_all (\<lambda>a. action_reqId a = rid) (fst (glarusMoreResults moreItem text rid r4))
   \<and> list_all (\<lambda>a. action_reqId a = rid) (fst (nominatimSearch toUpperCase text rid opts r5))
   \<and> list_all (\<lambda>a. action_reqId a = rid) (layerSearch text rid opts)
   \<and> list_all (\<lambda>a. action_reqId a = rid)
        (fst (pd_onSearch (searchProviderFactory cfg) text rid opts r6))"
proof (intro conjI)
  show "list_all (\<lambda>a. action_reqId a = rid) (coordinatesSearch toString text rid opts)"
    by (simp add: coordinatesSearch_def Let_def)
  show "list_all (\<lambda>a. action_reqId a = rid) (fst (geoAdminLocationSearch reprojectBbox text rid opts r1))"
    by (auto simp: geoAdminLocationSearch_def promise_defs geoadmin_reqId split: sum.splits)
  show "list_all (\<lambda>a. action_reqId a = rid) (fst (usterSearch text rid opts r2))"
    by (auto simp: usterSearch_def usterSearchResults_def promise_defs split: sum.splits)
  show "list_all (\<lambda>a. action_reqId a = rid) (fst (wolfsburgSearch text rid opts r3))"
    by (auto simp: wolfsburgSearch_def wolfsburgSearchResults_def promise_defs split: sum.splits)
  show "list_all (\<lambda>a. action_reqId a = rid) (fst (glarusSearch text rid opts r4))"
    by (auto simp: glarusSearch_def glarusSearchResults_def promise_defs Let_def split: sum.splits)
  show "list_all (\<lambda>a. action_reqId a = rid) (fst (glarusMoreResults moreItem text rid r4))"
    by (auto simp: glarusMoreResults_def glarusSearchResults_def promise_defs Let_def split: sum.splits)
  show "list_all (\<lambda>a. action_reqId a = rid) (fst (nominatimSearch toUpperCase text rid opts r5))"
    by (auto simp: nominatimSearch_def promise_defs nominatim_reqId split: sum.splits)
  show "list_all (\<lambda>a. action_reqId a = rid) (layerSearch text rid opts)"
    by (rule layerSearch_reqId)
  show "list_all (\<lambda>a. action_reqId a = rid)
        (fst (pd_onSearch (searchProviderFactory cfg) text rid opts r6))"
    by (auto simp: searchProviderFactory_def parametrizedSearch_def promise_defs split: sum.splits)
qed


section \<open>The groups of uster and wolfsburg\<close>

lemma push_item_last:
  "rs \<noteq> [] \<Longrightarrow> push_item (length rs - Suc 0) it rs = add_items [it] rs"
proof (induction rs rule: rev_induct)
  case Nil
  then show ?case by simp
next
  case (snoc g rs)
  then show ?case by (simp add: push_item_def add_items_def)
qed

lemma add_items_Nil [simp]: "add_items [] rs = rs"
  by (simp add: add_items_def)

lemma add_items_snoc [simp]:
  "add_items its (rs @ [g]) = rs @ [g\<lparr>group_items := group_items g @ its\<rparr>]"
  by (simp add: add_items_def)

lemma add_items_add_items:
  "add_items its (add_items its' rs) = add_items (its' @ its) rs"
  by (simp add: add_items_def)

lemma add_items_empty [simp]: "add_items its [] = []"
  by (simp add: add_items_def)

lemma add_items_eq_Nil [simp]: "(add_items its rs = []) = (rs = [])"
  by (simp add: add_items_def)

lemma length_add_items [simp]: "length (add_items its rs) = length rs"
  by (cases rs rule: rev_cases) (simp_all add: add_items_def)

lemma segments_all_bbox: "list_all hb es \<Longrightarrow> segments hb es = []"
  by (induction es) auto

lemma segments_drop_prefix: "list_all hb pre \<Longrightarrow> segments hb (pre @ rest) = segments hb rest"
  by (induction pre) auto

lemma us_has_bbox_simps:
  "us_bbox e = None \<Longrightarrow> \<not> us_has_bbox e"
  "us_bbox e = Some b \<Longrightarrow> us_has_bbox e"
  by (simp_all add: us_has_bbox_def)

lemma uster_fold:
  "state_wf st \<Longrightarrow>
   st_results (fold uster_entry es st) =
     add_items (uster_numbered (st_counter st) (takeWhile us_has_bbox es)) (st_results st)
     @ uster_groups (st_groupcounter st)
         (st_counter st + (if st_results st = [] then 0 else length (takeWhile us_has_bbox es)))
         (segments us_has_bbox es)"
proof (induction es arbitrary: st)
  case Nil
  then show ?case by simp
next
  case (Cons e es)
  show ?case
  proof (cases "us_bbox e")
    case None
    let ?g = "\<lparr>group_id = ''ustergroup'' @ nat_str (st_groupcounter st),
               group_title = Some (us_displaytext e), group_titlemsgid = None, group_items = []\<rparr>"
    let ?st = "st\<lparr>st_results := st_results st @ [?g],
                 st_currentgroup := Some (length (st_results st)),
                 st_groupcounter := st_groupcounter st + 1\<rparr>"
    have step: "uster_entry e st = ?st" using None by (simp add: uster_entry_def)
    have wf: "state_wf ?st" by (simp add: state_wf_def)
    show ?thesis
      using Cons.IH[OF wf] None by (simp add: step us_has_bbox_simps)
  next
    case (Some b)
    show ?thesis
    proof (cases "st_results st = []")
      case True
      then have "st_currentgroup st = None" using Cons.prems by (simp add: state_wf_def)
      then have step: "uster_entry e st = st" using Some by (simp add: uster_entry_def)
      show ?thesis
        using Cons.IH[OF Cons.prems] Some True by (simp add: step us_has_bbox_simps)
    next
      case False
      then have cur: "st_currentgroup st = Some (length (st_results st) - 1)"
        using Cons.prems by (simp add: state_wf_def)
      let ?st = "st\<lparr>st_results := add_items [uster_item (st_counter st) e b] (st_results st),
                   st_counter := st_counter st + 1\<rparr>"
      have step: "uster_entry e st = ?st"
        using Some cur False by (simp add: uster_entry_def push_item_last)
      have wf: "state_wf ?st" using cur False by (simp add: state_wf_def)
      show ?thesis
        using Cons.IH[OF wf] Some False
        by (simp add: step us_has_bbox_simps add_items_add_items)
    qed
  qed
qed

lemma uster_refines:
  "delivered_groups (usterSearchResults obj rid) =
     uster_groups 0 0 (segments us_has_bbox (or_list (us_results obj)))"
  using uster_fold[of loop_init "or_list (us_results obj)"]
  by (simp add: usterSearchResults_def loop_init_def state_wf_def)

lemma wb_has_bbox_simps:
  "wb_bbox e = None \<Longrightarrow> \<not> wb_has_bbox e"
  "wb_bbox e = Some b \<Longrightarrow> wb_has_bbox e"
  by (simp_all add: wb_has_bbox_def)

lemma wolfsburg_fold:
  "state_wf st \<Longrightarrow>
   st_results (fold wolfsburg_entry es st) =
     add_items (wolfsburg_numbered (st_counter st) (takeWhile wb_has_bbox es)) (st_results st)
     @ wolfsburg_groups (st_groupcounter st)
         (st_counter st + (if st_results st = [] then 0 else length (takeWhile wb_has_bbox es)))
         (segments wb_has_bbox es)"
proof (induction es arbitrary: st)
  case Nil
  then show ?case by simp
next
  case (Cons e es)
  show ?case
  proof (cases "wb_bbox e")
    case None
    let ?g = "\<lparr>group_id = ''wolfsburggroup'' @ nat_str (st_groupcounter st),
               group_title = Some (wb_displaytext e), group_titlemsgid = None, group_items = []\<rparr>"
    let ?st = "st\<lparr>st_results := st_results st @ [?g],
                 st_currentgroup := Some (length (st_results st)),
                 st_groupcounter := st_groupcounter st + 1\<rparr>"
    have step: "wolfsburg_entry e st = ?st" using None by (simp add: wolfsburg_entry_def)
    have wf: "state_wf ?st" by (simp add: state_wf_def)
    show ?thesis
      using Cons.IH[OF wf] None by (simp add: step wb_has_bbox_simps)
  next
    case (Some b)
    show ?thesis
    proof (cases "st_results st = []")
      case True
      then have "st_currentgroup st = None" using Cons.prems by (simp add: state_wf_def)
      then have step: "wolfsburg_entry e st = st" using Some by (simp add: wolfsburg_entry_def)
      show ?thesis
        using Cons.IH[OF Cons.prems] Some True by (simp add: step wb_has_bbox_simps)
    next
      case False
      then have cur: "st_currentgroup st = Some (length (st_results st) - 1)"
        using Cons.prems by (simp add: state_wf_def)
      let ?st = "st\<lparr>st_results := add_items [wolfsburg_item (st_counter st) e b] (st_results st),
                   st_counter := st_counter st + 1\<rparr>"
      have step: "wolfsburg_entry e st = ?st"
        using Some cur False by (simp add: wolfsburg_entry_def push_item_last)
      have wf: "state_wf ?st" using cur False by (simp add: state_wf_def)
      show ?thesis
        using Cons.IH[OF wf] Some False
        by (simp add: step wb_has_bbox_simps add_items_add_items)
    qed
  qed
qed

lemma wolfsburg_refines:
  "delivered_groups (wolfsburgSearchResults obj rid) =
     wolfsburg_groups 0 0 (segments wb_has_bbox (or_list (wb_results obj)))"
  using wolfsburg_fold[of loop_init "or_list (wb_results obj)"]
  by (simp add: wolfsburgSearchResults_def loop_init_def state_wf_def)

text \<open>
  C10. The groups that \<open>usterSearchResults\<close> and \<open>wolfsburgSearchResults\<close> deliver are those
  of the headers of the payload, in order, and the items of a group are the entries with a
  \<open>bbox\<close> between its header and the next one: every item is in the group of the nearest
  header before it. Entries with a \<open>bbox\<close> before the first header are dropped: the result
  is the same without them, and a payload of such entries only gives no group.
\<close>

theorem groups_follow_headers:
  "delivered_groups (usterSearchResults uobj rid) =
     uster_groups 0 0 (segments us_has_bbox (or_list (us_results uobj)))
   \<and> delivered_groups (wolfsburgSearchResults wobj rid) =
     wolfsburg_groups 0 0 (segments wb_has_bbox (or_list (wb_results wobj)))
   \<and> (list_all us_has_bbox upre \<longrightarrow>
        usterSearchResults \<lparr>us_results = Some (upre @ urest)\<rparr> rid =
        usterSearchResults \<lparr>us_results = Some urest\<rparr> rid)
   \<and> (list_all wb_has_bbox wpre \<longrightarrow>
        wolfsburgSearchResults \<lparr>wb_results = Some (wpre @ wrest)\<rparr> rid =
        wolfsburgSearchResults \<lparr>wb_results = Some wrest\<rparr> rid)
   \<and> (list_all us_has_bbox (or_list (us_results uobj)) \<longrightarrow>
        delivered_groups (usterSearchResults uobj rid) = [])
   \<and> (list_all wb_has_bbox (or_list (wb_results wobj)) \<longrightarrow>
        delivered_groups (wolfsburgSearchResults wobj rid) = [])"
proof (intro conjI impI)
  show "delivered_groups (usterSearchResults uobj rid) =
     uster_groups 0 0 (segments us_has_bbox (or_list (us_results uobj)))"
    by (rule uster_refines)
  show "delivered_groups (wolfsburgSearchResults wobj rid) =
     wolfsburg_groups 0 0 (segments wb_has_bbox (or_list (wb_results wobj)))"
    by (rule wolfsburg_refines)
next
  assume "list_all us_has_bbox upre"
  then have "delivered_groups (usterSearchResults \<lparr>us_results = Some (upre @ urest)\<rparr> rid) =
      delivered_groups (usterSearchResults \<lparr>us_results = Some urest\<rparr> rid)"
    by (simp add: uster_refines or_list_def segments_drop_prefix)
  then show "usterSearchResults \<lparr>us_results = Some (upre @ urest)\<rparr> rid =
        usterSearchResults \<lparr>us_results = Some urest\<rparr> rid"
    by (simp add: usterSearchResults_def)
next
  assume "list_all wb_has_bbox wpre"
  then have "delivered_groups (wolfsburgSearchResults \<lparr>wb_results = Some (wpre @ wrest)\<rparr> rid) =
      delivered_groups (wolfsburgSearchResults \<lparr>wb_results = Some wrest\<rparr> rid)"
    by (simp add: wolfsburg_refines or_list_def segments_drop_prefix)
  then show "wolfsburgSearchResults \<lparr>wb_results = Some (wpre @ wrest)\<rparr> rid =
        wolfsburgSearchResults \<lparr>wb_results = Some wrest\<rparr> rid"
    by (simp add: wolfsburgSearchResults_def)
next
  assume "list_all us_has_bbox (or_list (us_results uobj))"
  then show "delivered_groups (usterSearchResults uobj rid) = []"
    by (simp add: uster_refines segments_all_bbox)
next
  assume "list_all wb_has_bbox (or_list (wb_results wobj))"
  then show "delivered_groups (wolfsburgSearchResults wobj rid) = []"
    by (simp add: wolfsburg_refines segments_all_bbox)
qed

theorem groups_follow_headers_witness:
  "list_all us_has_bbox [example_entry]
   \<and> usterSearchResults \<lparr>us_results = Some ([example_entry] @ [example_header, example_entry])\<rparr> 1 =
     usterSearchResults \<lparr>us_results = Some [example_header, example_entry]\<rparr> 1
   \<and> delivered_groups (usterSearchResults \<lparr>us_results = Some [example_entry]\<rparr> 1) = []
   \<and> list_all wb_has_bbox [example_wb_entry]
   \<and> wolfsburgSearchResults
       \<lparr>wb_results = Some ([example_wb_entry] @ [example_wb_header, example_wb_entry])\<rparr> 1 =
     wolfsburgSearchResults \<lparr>wb_results = Some [example_wb_header, example_wb_entry]\<rparr> 1
   \<and> delivered_groups (wolfsburgSearchResults \<lparr>wb_results = Some [example_wb_entry]\<rparr> 1) = []"
  using groups_follow_headers[where uobj = "\<lparr>us_results = Some [example_entry]\<rparr>"
      and wobj = "\<lparr>wb_results = Some [example_wb_entry]\<rparr>" and rid = 1
      and upre = "[example_entry]" and urest = "[example_header, example_entry]"
      and wpre = "[example_wb_entry]" and wrest = "[example_wb_header, example_wb_entry]"]
  by (simp add: us_has_bbox_def wb_has_bbox_def example_entry_def example_wb_entry_def
        or_list_def)


end
